theory Spec2Isabelle
  imports Complex_Main
begin

section \<open>The query lifecycle of the SQL client's main window\<close>

text \<open>
  The development embeds the query lifecycle code of \<^verbatim>\<open>src/ui/main_window.py\<close>
  (class \<^verbatim>\<open>MainWindow\<close>): \<^verbatim>\<open>execute_query\<close>, \<^verbatim>\<open>handle_query_result\<close>,
  \<^verbatim>\<open>handle_query_error\<close>, \<^verbatim>\<open>stop_spinner\<close>, \<^verbatim>\<open>handle_query_timeout\<close>,
  \<^verbatim>\<open>cancel_current_query\<close>, \<^verbatim>\<open>close_tab\<close> and the part of \<^verbatim>\<open>add_tab\<close> that
  creates a worksheet. Every method mutates the window object; the model passes the
  window state explicitly and returns the updated state.
\<close>

subsection \<open>Values\<close>

text \<open>
  A tab is the page widget of a worksheet; Python compares and hashes it by identity, so a
  tab is a number. Timers (\<^verbatim>\<open>QTimer\<close>) and tasks (\<^verbatim>\<open>RunnableQuery\<close>) are objects as
  well and get fresh numbers from the counter \<open>next_id\<close>.
\<close>

type_synonym tab = nat

datatype pyval = IntV int | StrV string

text \<open>A connection is a Python dict; \<^verbatim>\<open>conn_data.get("id")\<close> is a lookup that may miss.\<close>

type_synonym conn_data = "(string \<times> pyval) list"

definition get_id :: "conn_data \<Rightarrow> pyval option" where
  "get_id cd = map_of cd ''id''"

text \<open>
  Times are seconds. The code holds them as floats; the only arithmetic on them that
  matters here is \<^verbatim>\<open>QUERY_TIMEOUT / 1000\<close>, which is exact.
\<close>

type_synonym seconds = rat

definition QUERY_TIMEOUT :: nat where
  "QUERY_TIMEOUT = 60000"

definition timeout_seconds :: seconds where
  "timeout_seconds = of_nat QUERY_TIMEOUT / 1000"

text \<open>
  The texts written to a tab's message view and status label. The f-strings of the source
  are kept as constructors with their arguments:
  \<open>QueryOk n t\<close> is "Query executed successfully ... Total rows: n ... Time: t sec",
  \<open>CommandOk n t\<close> is "Command executed successfully ... Rows affected: n ... Time: t sec",
  \<open>ErrorText m\<close> is "Error: m",
  \<open>TimedOutText t\<close> is "Error: Query Timed Out after t seconds." and
  \<open>CancelledText\<close> is "Query cancelled by user.".
\<close>

datatype message =
    NoText
  | QueryOk int seconds
  | CommandOk int seconds
  | ErrorText string
  | TimedOutText seconds
  | CancelledText

text \<open>
  What the window shows outside the tabs: the message boxes of
  \<^verbatim>\<open>dialogs/confirmation_dialogs.py\<close> (title and body) and the transient messages of the
  status bar (text and duration in ms). \<open>TimeoutWarning t\<close> is the box titled
  "Query Timeout" whose body is "The query was stopped as it exceeded ts.".
\<close>

datatype notice =
    InfoDialog string string
  | WarningDialog string string
  | CriticalDialog string string
  | TimeoutWarning seconds
  | StatusBar string nat

record history_entry =
  conn_id :: "pyval option"
  query_text :: string
  status :: string
  row_count :: int
  elapsed :: seconds

text \<open>The entry of \<^verbatim>\<open>self.tab_timers\<close> for a tab: a dict with exactly these three keys.\<close>

record timer_entry =
  timer :: nat
  start_time :: seconds
  timeout_timer :: nat

text \<open>\<^verbatim>\<open>RunnableQuery(conn_data, query, signals)\<close>: the task and what it was built with.\<close>

record runnable_query =
  rq_id :: nat
  rq_conn :: conn_data
  rq_query :: string

text \<open>
  The child widgets of a tab that the lifecycle code reads or writes, found by
  \<^verbatim>\<open>findChild\<close> under their object names. \<open>editor_stack\<close> is \<open>None\<close> when the child is
  missing, else its current page (0 the editor, 1 the history view). \<open>combo_data\<close> is
  \<^verbatim>\<open>db_combo_box.currentData()\<close>, \<open>None\<close> when the combo box has no current item.
  \<open>results_index\<close> is the page of the results stack (0 table, 1 messages,
  2 notifications, 3 spinner); the three header buttons are checked to match it.
  \<open>spinner_movie\<close> is \<open>None\<close> when the spinner has no movie, else whether it runs.
\<close>

record tab_widget =
  combo_data :: "conn_data option"
  editor_text :: string
  editor_stack :: "nat option"
  results_index :: nat
  spinner_movie :: "bool option"
  result_table :: "string list \<times> string list list"
  message_view :: message
  tab_status_label :: message

record window =
  tabs :: "tab list"
  current_index :: nat
  widgets :: "tab \<Rightarrow> tab_widget"
  tab_timers :: "tab \<rightharpoonup> timer_entry"
  running_queries :: "tab \<rightharpoonup> nat"
  timers :: "nat \<rightharpoonup> nat"
  pool :: "runnable_query list"
  cancelled :: "nat set"
  next_id :: nat
  cancel_action :: bool
  status_message_label :: string
  shown :: "notice list"
  history_appends :: "history_entry list"
  store_fails :: bool
  history_rows :: "history_entry list"
  store_log :: "history_entry list"

text \<open>
  \<open>timers\<close> holds the running \<^verbatim>\<open>QTimer\<close>s with their interval in ms: \<^verbatim>\<open>start(ms)\<close>
  adds one, \<^verbatim>\<open>stop()\<close> removes it. \<open>pool\<close> lists the tasks handed to
  \<^verbatim>\<open>thread_pool.start\<close>, oldest first, and \<open>cancelled\<close> the tasks whose \<^verbatim>\<open>cancel()\<close>
  was called. \<open>history_appends\<close> lists the calls of
  \<^verbatim>\<open>db_manager.save_query_to_history\<close>, oldest first.
\<close>

datatype py_error = AttributeError

subsection \<open>Strings\<close>

text \<open>
  \<^verbatim>\<open>str.strip()\<close> removes leading and trailing whitespace; these are the whitespace
  code points below 256.
\<close>

definition is_space :: "char \<Rightarrow> bool" where
  "is_space c = ((of_char c :: nat) \<in> {9, 10, 11, 12, 13, 28, 29, 30, 31, 32, 133, 160})"

definition strip :: "string \<Rightarrow> string" where
  "strip s = rev (dropWhile is_space (rev (dropWhile is_space s)))"

text \<open>\<^verbatim>\<open>query.endswith(';')\<close>\<close>

definition endswith_semicolon :: "string \<Rightarrow> bool" where
  "endswith_semicolon q = (case rev q of [] \<Rightarrow> False | c # _ \<Rightarrow> c = CHR '';'')"

subsection \<open>The history recorder\<close>

text \<open>
  Modelled from the spec: \<^verbatim>\<open>DatabaseManager.save_query_to_history\<close> lives in
  \<^verbatim>\<open>core/db_manager.py\<close>, which is not among the sources. Following section 4.4 of the
  specification, the call is a fire-and-forget append: when the store accepts it the
  entry becomes a row, when the store fails the failure is logged, and in both cases
  the call returns to the handler. \<open>store_fails\<close> says which of the two happens.
\<close>

definition save_query_to_history ::
  "window \<Rightarrow> pyval option \<Rightarrow> string \<Rightarrow> string \<Rightarrow> int \<Rightarrow> seconds \<Rightarrow> window" where
  "save_query_to_history s cid q st n t =
     (let e = \<lparr>conn_id = cid, query_text = q, status = st, row_count = n, elapsed = t\<rparr>;
          s1 = s\<lparr>history_appends := history_appends s @ [e]\<rparr>
      in if store_fails s then s1\<lparr>store_log := store_log s @ [e]\<rparr>
         else s1\<lparr>history_rows := history_rows s @ [e]\<rparr>)"

subsection \<open>Tabs\<close>

definition currentWidget :: "window \<Rightarrow> tab option" where
  "currentWidget s =
     (if current_index s < length (tabs s) then Some (tabs s ! current_index s) else None)"

definition widget_at :: "window \<Rightarrow> nat \<Rightarrow> tab option" where
  "widget_at s i = (if i < length (tabs s) then Some (tabs s ! i) else None)"

definition show_notice :: "window \<Rightarrow> notice \<Rightarrow> window" where
  "show_notice s n = s\<lparr>shown := shown s @ [n]\<rparr>"

text \<open>
  \<^verbatim>\<open>timer.stop()\<close> and \<^verbatim>\<open>timeout_timer.stop()\<close> on a tab's entry, then
  \<^verbatim>\<open>del self.tab_timers[tab]\<close>, guarded by \<^verbatim>\<open>if tab in self.tab_timers\<close>.
\<close>

definition stop_tab_timers :: "window \<Rightarrow> tab \<Rightarrow> window" where
  "stop_tab_timers s t =
     (case tab_timers s t of
        None \<Rightarrow> s
      | Some e \<Rightarrow> s\<lparr>timers := (timers s)(timer e := None, timeout_timer e := None),
                    tab_timers := (tab_timers s)(t := None)\<rparr>)"

text \<open>
  \<^verbatim>\<open>if tab in self.running_queries: del self.running_queries[tab]\<close> followed by
  \<^verbatim>\<open>if not self.running_queries: self.cancel_action.setEnabled(False)\<close>.
\<close>

definition forget_running :: "window \<Rightarrow> tab \<Rightarrow> window" where
  "forget_running s t =
     (let s1 = s\<lparr>running_queries := (running_queries s)(t := None)\<rparr>
      in if dom (running_queries s1) = {} then s1\<lparr>cancel_action := False\<rparr> else s1)"

definition stop_spinner :: "window \<Rightarrow> tab \<Rightarrow> bool \<Rightarrow> window" where
  "stop_spinner s t success =
     (let w = widgets s t
      in s\<lparr>widgets := (widgets s)
             (t := w\<lparr>spinner_movie := map_option (\<lambda>_. False) (spinner_movie w),
                      results_index := (if success then 0 else 1)\<rparr>)\<rparr>)"

subsection \<open>Submitting a query\<close>

definition execute_query :: "window \<Rightarrow> seconds \<Rightarrow> window" where
  "execute_query s now =
     (case currentWidget s of
        None \<Rightarrow> s
      | Some current_tab \<Rightarrow>
          let w = widgets s current_tab in
          (case editor_stack w of
             None \<Rightarrow>
               show_notice s (CriticalDialog ''Internal Error''
                 ''Could not find the query editor stack.'')
           | Some page \<Rightarrow>
               if page = 1 then
                 show_notice s (InfoDialog ''Info''
                   ''Cannot execute from History view. Switch to the Query view.'')
               else if current_tab \<in> dom (running_queries s) then
                 show_notice s (WarningDialog ''Query in Progress''
                   ''A query is already running in this tab.'')
               else
                 let query = strip (editor_text w) in
                 if \<not> endswith_semicolon query then
                   show_notice
                     (show_notice s (WarningDialog ''Missing Semicolon''
                        ''Query must end with a semicolon (;) to execute.''))
                     (StatusBar ''Execution aborted: Missing semicolon.'' 3000)
                 else
                   (case combo_data w of
                      None \<Rightarrow> show_notice s (StatusBar ''Connection or query is empty'' 3000)
                    | Some conn \<Rightarrow>
                        if conn = [] \<or> query = [] then
                          show_notice s (StatusBar ''Connection or query is empty'' 3000)
                        else
                          let progress_timer = next_id s;
                              timeout_t = next_id s + 1;
                              runnable = next_id s + 2
                          in s\<lparr>widgets := (widgets s)
                                  (current_tab := w\<lparr>results_index := 3,
                                     spinner_movie := map_option (\<lambda>_. True) (spinner_movie w)\<rparr>),
                                tab_timers := (tab_timers s)
                                  (current_tab \<mapsto> \<lparr>timer = progress_timer, start_time = now,
                                     timeout_timer = timeout_t\<rparr>),
                                running_queries := (running_queries s)(current_tab \<mapsto> runnable),
                                timers := (timers s)
                                  (progress_timer \<mapsto> 100, timeout_t \<mapsto> QUERY_TIMEOUT),
                                pool := pool s @
                                  [\<lparr>rq_id = runnable, rq_conn = conn, rq_query = query\<rparr>],
                                next_id := next_id s + 3,
                                cancel_action := True,
                                status_message_label := ''Executing query...''\<rparr>)))"

subsection \<open>The terminal handlers\<close>

definition handle_query_result ::
  "window \<Rightarrow> tab \<Rightarrow> conn_data \<Rightarrow> string \<Rightarrow> string list list \<Rightarrow> string list \<Rightarrow> int \<Rightarrow>
   seconds \<Rightarrow> bool \<Rightarrow> window" where
  "handle_query_result s target_tab conn query results columns n t is_select =
     (let s1 = stop_tab_timers s target_tab;
          s2 = save_query_to_history s1 (get_id conn) query ''Success'' n t;
          w = widgets s2 target_tab;
          w' = (if is_select
                then w\<lparr>result_table := (columns, results), message_view := QueryOk n t,
                       tab_status_label := QueryOk n t\<rparr>
                else w\<lparr>result_table := ([], []), message_view := CommandOk n t,
                       tab_status_label := CommandOk n t\<rparr>);
          s3 = s2\<lparr>widgets := (widgets s2)(target_tab := w'),
                  status_message_label := ''Ready''\<rparr>;
          s4 = stop_spinner s3 target_tab True
      in forget_running s4 target_tab)"

text \<open>
  The three handlers below read \<^verbatim>\<open>db_combo_box.currentData().get("id")\<close>. When the
  combo box has no current item, \<^verbatim>\<open>currentData()\<close> is \<^verbatim>\<open>None\<close> and the attribute
  access raises; the exception leaves the slot, where PyQt6 ends the application, so
  the model returns the error alone.
\<close>

definition handle_query_error :: "window \<Rightarrow> tab \<Rightarrow> string \<Rightarrow> py_error + window" where
  "handle_query_error s target_tab error_message =
     (let s1 = stop_tab_timers s target_tab;
          w = widgets s1 target_tab;
          s2 = s1\<lparr>widgets := (widgets s1)
                  (target_tab := w\<lparr>message_view := ErrorText error_message,
                                   tab_status_label := ErrorText error_message\<rparr>)\<rparr>
      in case combo_data (widgets s2 target_tab) of
           None \<Rightarrow> Inl AttributeError
         | Some cd \<Rightarrow>
             let s3 = save_query_to_history s2 (get_id cd)
                        (strip (editor_text (widgets s2 target_tab))) ''Failed'' 0 0;
                 s4 = s3\<lparr>status_message_label := ''Error occurred''\<rparr>;
                 s5 = stop_spinner s4 target_tab False
             in Inr (forget_running s5 target_tab))"

definition handle_query_timeout :: "window \<Rightarrow> tab \<Rightarrow> nat \<Rightarrow> py_error + window" where
  "handle_query_timeout s t runnable =
     (if running_queries s t = Some runnable then
        let s1 = s\<lparr>cancelled := insert runnable (cancelled s)\<rparr>;
            w = widgets s1 t;
            s2 = s1\<lparr>widgets := (widgets s1)
                    (t := w\<lparr>message_view := TimedOutText timeout_seconds,
                             tab_status_label := TimedOutText timeout_seconds\<rparr>)\<rparr>
        in case combo_data (widgets s2 t) of
             None \<Rightarrow> Inl AttributeError
           | Some cd \<Rightarrow>
               let s3 = save_query_to_history s2 (get_id cd)
                          (strip (editor_text (widgets s2 t))) ''Timed Out'' 0 timeout_seconds;
                   s4 = stop_spinner s3 t False;
                   s5 = (case tab_timers s4 t of
                           None \<Rightarrow> s4
                         | Some e \<Rightarrow> s4\<lparr>timers := (timers s4)(timer e := None),
                                        tab_timers := (tab_timers s4)(t := None)\<rparr>);
                   s6 = forget_running s5 t;
                   s7 = s6\<lparr>status_message_label := ''Error occurred''\<rparr>
               in Inr (show_notice s7 (TimeoutWarning timeout_seconds))
      else Inr s)"

definition cancel_current_query :: "window \<Rightarrow> py_error + window" where
  "cancel_current_query s =
     (case currentWidget s of
        None \<Rightarrow> Inr s
      | Some current_tab \<Rightarrow>
          (case running_queries s current_tab of
             None \<Rightarrow> Inr s
           | Some runnable \<Rightarrow>
               let s1 = s\<lparr>cancelled := insert runnable (cancelled s)\<rparr>;
                   s2 = stop_tab_timers s1 current_tab;
                   w = widgets s2 current_tab;
                   s3 = s2\<lparr>widgets := (widgets s2)
                           (current_tab := w\<lparr>message_view := CancelledText,
                                             tab_status_label := CancelledText\<rparr>)\<rparr>
               in case combo_data (widgets s3 current_tab) of
                    None \<Rightarrow> Inl AttributeError
                  | Some cd \<Rightarrow>
                      let s4 = save_query_to_history s3 (get_id cd)
                                 (strip (editor_text (widgets s3 current_tab))) ''Cancelled'' 0 0;
                          s5 = stop_spinner s4 current_tab False;
                          s6 = s5\<lparr>status_message_label := ''Query Cancelled''\<rparr>
                      in Inr (forget_running s6 current_tab)))"

subsection \<open>Opening and closing tabs\<close>

text \<open>
  \<^verbatim>\<open>QTabWidget.removeTab(index)\<close>: the page leaves the tab bar (the widget itself is
  not deleted). The current index follows Qt's default: a tab left of the current one
  shifts it down, and when the current tab is removed its right neighbour becomes
  current, or the left one when there is none.
\<close>

definition removeTab :: "window \<Rightarrow> nat \<Rightarrow> window" where
  "removeTab s i =
     (if i < length (tabs s) then
        s\<lparr>tabs := take i (tabs s) @ drop (Suc i) (tabs s),
          current_index :=
            (if i < current_index s \<or> (i = current_index s \<and> Suc i = length (tabs s))
             then current_index s - 1 else current_index s)\<rparr>
      else s)"

definition close_tab :: "window \<Rightarrow> nat \<Rightarrow> window" where
  "close_tab s index =
     (let s2 = (case widget_at s index of
                  None \<Rightarrow> s
                | Some t \<Rightarrow>
                    let s1 = (case running_queries s t of
                                None \<Rightarrow> s
                              | Some runnable \<Rightarrow>
                                  forget_running (s\<lparr>cancelled := insert runnable (cancelled s)\<rparr>) t)
                    in stop_tab_timers s1 t)
      in if length (tabs s2) > 1 then removeTab s2 index
         else show_notice s2 (StatusBar ''Must keep at least one tab'' 3000))"

text \<open>
  \<^verbatim>\<open>add_tab\<close> builds a fresh page, fills its combo box from the connection store
  (\<open>items\<close>, the first item becoming current), appends the page and makes it current.
\<close>

definition new_tab_widget :: "conn_data list \<Rightarrow> tab_widget" where
  "new_tab_widget items =
     \<lparr>combo_data = (case items of [] \<Rightarrow> None | c # _ \<Rightarrow> Some c),
      editor_text = [], editor_stack = Some 0, results_index = 0,
      spinner_movie = Some False, result_table = ([], []),
      message_view = NoText, tab_status_label = NoText\<rparr>"

definition add_tab :: "window \<Rightarrow> conn_data list \<Rightarrow> window" where
  "add_tab s items =
     s\<lparr>widgets := (widgets s)(next_id s := new_tab_widget items),
       tabs := tabs s @ [next_id s],
       current_index := length (tabs s),
       next_id := next_id s + 1\<rparr>"

text \<open>\<^verbatim>\<open>MainWindow.__init__\<close>: empty registries, then the first worksheet.\<close>

definition empty_window :: window where
  "empty_window =
     \<lparr>tabs = [], current_index = 0, widgets = (\<lambda>_. new_tab_widget []),
      tab_timers = Map.empty, running_queries = Map.empty, timers = Map.empty,
      pool = [], cancelled = {}, next_id = 0, cancel_action = False,
      status_message_label = ''Ready'', shown = [], history_appends = [],
      store_fails = False, history_rows = [], store_log = []\<rparr>"

definition init_window :: "conn_data list \<Rightarrow> window" where
  "init_window items = add_tab empty_window items"

text \<open>What the user does to a tab between two lifecycle events.\<close>

definition edit_text :: "window \<Rightarrow> tab \<Rightarrow> string \<Rightarrow> window" where
  "edit_text s t txt = s\<lparr>widgets := (widgets s)(t := (widgets s t)\<lparr>editor_text := txt\<rparr>)\<rparr>"

definition select_connection :: "window \<Rightarrow> tab \<Rightarrow> conn_data option \<Rightarrow> window" where
  "select_connection s t cd = s\<lparr>widgets := (widgets s)(t := (widgets s t)\<lparr>combo_data := cd\<rparr>)\<rparr>"

text \<open>The phase of a session: running exactly while the tab owns a task.\<close>

datatype phase = Idle | Running

definition phase_of :: "window \<Rightarrow> tab \<Rightarrow> phase" where
  "phase_of s t = (if t \<in> dom (running_queries s) then Running else Idle)"

subsection \<open>Invariant and observations\<close>

text \<open>
  A tab has an entry in \<^verbatim>\<open>tab_timers\<close> (which holds both the progress timer and the
  timeout timer) exactly when it has an entry in \<^verbatim>\<open>running_queries\<close>.
\<close>

definition timers_iff_running :: "window \<Rightarrow> bool" where
  "timers_iff_running s = (dom (tab_timers s) = dom (running_queries s))"

text \<open>The window without the history store's own contents.\<close>

definition outside_store :: "window \<Rightarrow> window" where
  "outside_store s = s\<lparr>store_fails := False, history_rows := [], store_log := []\<rparr>"

definition outside_store_result :: "py_error + window \<Rightarrow> py_error + window" where
  "outside_store_result r = (case r of Inl e \<Rightarrow> Inl e | Inr s \<Rightarrow> Inr (outside_store s))"

subsection \<open>Concrete windows\<close>

text \<open>
  A window with one worksheet on connection 7 whose editor holds a terminated query, and
  the same window after the query was submitted at time 0: timers 1 and 2, task 3.
\<close>

definition demo_idle :: window where
  "demo_idle = edit_text (init_window [[(''id'', IntV 7)]]) 0 ''SELECT 1; ''"

definition demo_running :: window where
  "demo_running = execute_query demo_idle 0"

text \<open>The same with the terminator missing.\<close>

definition demo_unterminated :: window where
  "demo_unterminated = edit_text (init_window [[(''id'', IntV 7)]]) 0 ''SELECT 1''"

text \<open>
  Two worksheets; the second one (tab 1, current) runs a query: timers 2 and 3, task 4.
\<close>

definition demo_two_tabs :: window where
  "demo_two_tabs =
     execute_query
       (edit_text (add_tab (init_window [[(''id'', IntV 7)]]) [[(''id'', IntV 7)]]) 1
          ''SELECT 2;'') 0"

text \<open>
  The running window after the user replaced the editor text and picked connection 9.
\<close>

definition demo_edited :: window where
  "demo_edited =
     select_connection (edit_text demo_running 0 ''DROP TABLE t;'') 0
       (Some [(''id'', IntV 9)])"


section \<open>Properties\<close>

subsection \<open>What each step changes\<close>

lemmas build_defs = init_window_def add_tab_def empty_window_def edit_text_def
  select_connection_def new_tab_widget_def

lemmas text_defs = strip_def is_space_def endswith_semicolon_def

lemmas step_defs = execute_query_def currentWidget_def Let_def
  cancel_current_query_def stop_tab_timers_def forget_running_def stop_spinner_def
  save_query_to_history_def handle_query_result_def get_id_def show_notice_def
  handle_query_timeout_def handle_query_error_def close_tab_def widget_at_def removeTab_def

lemma stop_tab_timers_frame [simp]:
  "running_queries (stop_tab_timers s t) = running_queries s"
  "history_appends (stop_tab_timers s t) = history_appends s"
  "widgets (stop_tab_timers s t) = widgets s"
  "pool (stop_tab_timers s t) = pool s"
  "cancelled (stop_tab_timers s t) = cancelled s"
  "tabs (stop_tab_timers s t) = tabs s"
  "current_index (stop_tab_timers s t) = current_index s"
  "shown (stop_tab_timers s t) = shown s"
  "store_fails (stop_tab_timers s t) = store_fails s"
  "tab_timers (stop_tab_timers s t) = (tab_timers s)(t := None)"
  by (auto simp: stop_tab_timers_def fun_upd_idem split: option.splits)

lemma forget_running_frame [simp]:
  "running_queries (forget_running s t) = (running_queries s)(t := None)"
  "history_appends (forget_running s t) = history_appends s"
  "widgets (forget_running s t) = widgets s"
  "pool (forget_running s t) = pool s"
  "cancelled (forget_running s t) = cancelled s"
  "tabs (forget_running s t) = tabs s"
  "current_index (forget_running s t) = current_index s"
  "shown (forget_running s t) = shown s"
  "tab_timers (forget_running s t) = tab_timers s"
  "timers (forget_running s t) = timers s"
  "store_fails (forget_running s t) = store_fails s"
  by (simp_all add: forget_running_def Let_def)

lemma stop_spinner_frame [simp]:
  "running_queries (stop_spinner s t b) = running_queries s"
  "history_appends (stop_spinner s t b) = history_appends s"
  "pool (stop_spinner s t b) = pool s"
  "cancelled (stop_spinner s t b) = cancelled s"
  "tabs (stop_spinner s t b) = tabs s"
  "current_index (stop_spinner s t b) = current_index s"
  "shown (stop_spinner s t b) = shown s"
  "tab_timers (stop_spinner s t b) = tab_timers s"
  "timers (stop_spinner s t b) = timers s"
  "store_fails (stop_spinner s t b) = store_fails s"
  "message_view (widgets (stop_spinner s t b) u) = message_view (widgets s u)"
  "tab_status_label (widgets (stop_spinner s t b) u) = tab_status_label (widgets s u)"
  "combo_data (widgets (stop_spinner s t b) u) = combo_data (widgets s u)"
  "editor_text (widgets (stop_spinner s t b) u) = editor_text (widgets s u)"
  by (simp_all add: stop_spinner_def Let_def)

lemma save_query_to_history_frame [simp]:
  "running_queries (save_query_to_history s c q st n e) = running_queries s"
  "history_appends (save_query_to_history s c q st n e) =
     history_appends s @ [\<lparr>conn_id = c, query_text = q, status = st, row_count = n, elapsed = e\<rparr>]"
  "pool (save_query_to_history s c q st n e) = pool s"
  "cancelled (save_query_to_history s c q st n e) = cancelled s"
  "tabs (save_query_to_history s c q st n e) = tabs s"
  "current_index (save_query_to_history s c q st n e) = current_index s"
  "shown (save_query_to_history s c q st n e) = shown s"
  "tab_timers (save_query_to_history s c q st n e) = tab_timers s"
  "timers (save_query_to_history s c q st n e) = timers s"
  "widgets (save_query_to_history s c q st n e) = widgets s"
  "store_fails (save_query_to_history s c q st n e) = store_fails s"
  by (simp_all add: save_query_to_history_def Let_def)

lemma result_appends:
  "history_appends (handle_query_result s t conn q rows cols n el sel) =
     history_appends s @ [\<lparr>conn_id = get_id conn, query_text = q, status = ''Success'',
                           row_count = n, elapsed = el\<rparr>]"
  "running_queries (handle_query_result s t conn q rows cols n el sel) = (running_queries s)(t := None)"
  "tab_timers (handle_query_result s t conn q rows cols n el sel) = (tab_timers s)(t := None)"
  by (simp_all add: handle_query_result_def Let_def)

lemma error_appends:
  assumes "combo_data (widgets s t) = Some cd"
  shows "\<exists>s'. handle_query_error s t m = Inr s' \<and>
     history_appends s' = history_appends s @ [\<lparr>conn_id = get_id cd,
        query_text = strip (editor_text (widgets s t)), status = ''Failed'',
        row_count = 0, elapsed = 0\<rparr>] \<and>
     running_queries s' = (running_queries s)(t := None) \<and>
     tab_timers s' = (tab_timers s)(t := None) \<and>
     message_view (widgets s' t) = ErrorText m"
  using assms by (simp add: handle_query_error_def Let_def)

lemma timeout_appends:
  assumes "running_queries s t = Some r" "combo_data (widgets s t) = Some cd"
  shows "\<exists>s'. handle_query_timeout s t r = Inr s' \<and>
     history_appends s' = history_appends s @ [\<lparr>conn_id = get_id cd,
        query_text = strip (editor_text (widgets s t)), status = ''Timed Out'',
        row_count = 0, elapsed = timeout_seconds\<rparr>] \<and>
     running_queries s' = (running_queries s)(t := None) \<and>
     tab_timers s' = (tab_timers s)(t := None) \<and>
     message_view (widgets s' t) = TimedOutText timeout_seconds \<and>
     tab_status_label (widgets s' t) = TimedOutText timeout_seconds \<and>
     cancelled s' = insert r (cancelled s) \<and> pool s' = pool s \<and>
     shown s' = shown s @ [TimeoutWarning timeout_seconds]"
  using assms by (auto simp: handle_query_timeout_def Let_def show_notice_def fun_upd_idem split: option.splits)

lemma cancel_appends:
  assumes "currentWidget s = Some t" "running_queries s t = Some r" "combo_data (widgets s t) = Some cd"
  shows "\<exists>s'. cancel_current_query s = Inr s' \<and>
     history_appends s' = history_appends s @ [\<lparr>conn_id = get_id cd,
        query_text = strip (editor_text (widgets s t)), status = ''Cancelled'',
        row_count = 0, elapsed = 0\<rparr>] \<and>
     running_queries s' = (running_queries s)(t := None) \<and>
     tab_timers s' = (tab_timers s)(t := None) \<and>
     message_view (widgets s' t) = CancelledText \<and>
     cancelled s' = insert r (cancelled s) \<and> pool s' = pool s"
  using assms by (simp add: cancel_current_query_def Let_def)

lemma close_frame:
  "history_appends (close_tab s i) = history_appends s"
  "widgets (close_tab s i) = widgets s"
  "pool (close_tab s i) = pool s"
  by (simp_all add: close_tab_def Let_def removeTab_def show_notice_def split: option.splits)

lemma execute_frame:
  "history_appends (execute_query s now) = history_appends s"
  by (simp add: execute_query_def Let_def show_notice_def split: option.splits)

subsection \<open>The concrete windows\<close>

lemma demo_running_fields:
  "tabs demo_running = [0]" "current_index demo_running = 0"
  "running_queries demo_running 0 = Some 3"
  "tab_timers demo_running 0 = Some \<lparr>timer = 1, start_time = 0, timeout_timer = 2\<rparr>"
  "timers demo_running 1 = Some 100" "timers demo_running 2 = Some 60000"
  "pool demo_running = [\<lparr>rq_id = 3, rq_conn = [(''id'', IntV 7)], rq_query = ''SELECT 1;''\<rparr>]"
  "history_appends demo_running = []" "cancelled demo_running = {}"
  "combo_data (widgets demo_running 0) = Some [(''id'', IntV 7)]"
  "editor_text (widgets demo_running 0) = ''SELECT 1; ''"
  "editor_stack (widgets demo_running 0) = Some 0"
  "message_view (widgets demo_running 0) = NoText"
  "shown demo_running = []"
  by (simp_all add: demo_running_def demo_idle_def build_defs text_defs step_defs QUERY_TIMEOUT_def)

lemma demo_two_fields:
  "tabs demo_two_tabs = [0, 1]" "current_index demo_two_tabs = 1"
  "running_queries demo_two_tabs 1 = Some 4"
  "tab_timers demo_two_tabs 1 = Some \<lparr>timer = 2, start_time = 0, timeout_timer = 3\<rparr>"
  "timers demo_two_tabs 2 = Some 100" "timers demo_two_tabs 3 = Some 60000"
  "history_appends demo_two_tabs = []"
  by (simp_all add: demo_two_tabs_def build_defs text_defs step_defs QUERY_TIMEOUT_def)

subsection \<open>Late results\<close>

text \<open>
  C1. The claim: of the three terminal paths (executor settled, timeout, cancel) at most
  one is honoured per task, one outcome is emitted and recorded, and a result that
  arrives after the session left Running through a cancel is discarded. The code does
  otherwise: \<^verbatim>\<open>handle_query_result\<close> has no guard, unlike \<^verbatim>\<open>handle_query_timeout\<close>.
  In the running window the user cancels: the session is idle and one entry
  ''Cancelled'' is recorded. The result of the cancelled task then arrives: a second
  entry ''Success'' is recorded and the result replaces the cancel message in the tab.
\<close>

theorem late_result_after_cancel:
  "\<exists>s2. cancel_current_query demo_running = Inr s2 \<and> phase_of s2 0 = Idle \<and>
        map status (history_appends s2) = [''Cancelled''] \<and>
        message_view (widgets s2 0) = CancelledText \<and>
        map status (history_appends
          (handle_query_result s2 0 [(''id'', IntV 7)] ''SELECT 1;'' [[''1'']] [''c''] 1 (1/2) True))
          = [''Cancelled'', ''Success''] \<and>
        message_view (widgets
          (handle_query_result s2 0 [(''id'', IntV 7)] ''SELECT 1;'' [[''1'']] [''c''] 1 (1/2) True) 0)
          = QueryOk 1 (1/2)"
  by (simp add: demo_running_def demo_idle_def build_defs text_defs step_defs phase_of_def)

subsection \<open>History appends\<close>

text \<open>
  C2, as claimed: every terminal path of an accepted submission, closing the session
  while the query runs included, appends exactly one history entry. The running window
  refutes it: closing its tab ends the query (the session is idle afterwards) and the
  history receives nothing.
\<close>

theorem close_running_appends_nothing:
  "phase_of demo_running 0 = Running \<and> phase_of (close_tab demo_running 0) 0 = Idle \<and>
   history_appends (close_tab demo_running 0) = history_appends demo_running"
  by (simp add: demo_running_def demo_idle_def build_defs text_defs step_defs phase_of_def)

text \<open>
  C2, amended: for a running session whose combo box has a current connection, each of
  the four handlers appends exactly one entry and leaves the session idle, with status
  ''Success'' for a result, ''Failed'' for an executor error, ''Timed Out'' for the
  watchdog and ''Cancelled'' for a user cancel; closing a tab and submitting append
  nothing.
\<close>

theorem terminal_paths_append_once:
  assumes "running_queries s t = Some r" and "combo_data (widgets s t) = Some cd"
  shows "history_appends (handle_query_result s t conn q rows cols n el sel) =
           history_appends s @ [\<lparr>conn_id = get_id conn, query_text = q, status = ''Success'',
                                  row_count = n, elapsed = el\<rparr>] \<and>
         phase_of (handle_query_result s t conn q rows cols n el sel) t = Idle \<and>
         (\<exists>s'. handle_query_error s t m = Inr s' \<and> phase_of s' t = Idle \<and>
            history_appends s' = history_appends s @ [\<lparr>conn_id = get_id cd,
              query_text = strip (editor_text (widgets s t)), status = ''Failed'',
              row_count = 0, elapsed = 0\<rparr>]) \<and>
         (\<exists>s'. handle_query_timeout s t r = Inr s' \<and> phase_of s' t = Idle \<and>
            history_appends s' = history_appends s @ [\<lparr>conn_id = get_id cd,
              query_text = strip (editor_text (widgets s t)), status = ''Timed Out'',
              row_count = 0, elapsed = timeout_seconds\<rparr>]) \<and>
         (currentWidget s = Some t \<longrightarrow>
            (\<exists>s'. cancel_current_query s = Inr s' \<and> phase_of s' t = Idle \<and>
               history_appends s' = history_appends s @ [\<lparr>conn_id = get_id cd,
                 query_text = strip (editor_text (widgets s t)), status = ''Cancelled'',
                 row_count = 0, elapsed = 0\<rparr>])) \<and>
         history_appends (close_tab s i) = history_appends s \<and>
         history_appends (execute_query s now) = history_appends s"
proof -
  obtain s1 where "handle_query_error s t m = Inr s1"
    "history_appends s1 = history_appends s @ [\<lparr>conn_id = get_id cd,
        query_text = strip (editor_text (widgets s t)), status = ''Failed'',
        row_count = 0, elapsed = 0\<rparr>]"
    "running_queries s1 = (running_queries s)(t := None)"
    using error_appends [OF assms(2)] by blast
  moreover obtain s2 where "handle_query_timeout s t r = Inr s2"
    "history_appends s2 = history_appends s @ [\<lparr>conn_id = get_id cd,
        query_text = strip (editor_text (widgets s t)), status = ''Timed Out'',
        row_count = 0, elapsed = timeout_seconds\<rparr>]"
    "running_queries s2 = (running_queries s)(t := None)"
    using timeout_appends [OF assms] by blast
  moreover have "currentWidget s = Some t \<longrightarrow>
            (\<exists>s'. cancel_current_query s = Inr s' \<and> phase_of s' t = Idle \<and>
               history_appends s' = history_appends s @ [\<lparr>conn_id = get_id cd,
                 query_text = strip (editor_text (widgets s t)), status = ''Cancelled'',
                 row_count = 0, elapsed = 0\<rparr>])"
  proof
    assume cur: "currentWidget s = Some t"
    obtain s3 where "cancel_current_query s = Inr s3"
      "history_appends s3 = history_appends s @ [\<lparr>conn_id = get_id cd,
        query_text = strip (editor_text (widgets s t)), status = ''Cancelled'',
        row_count = 0, elapsed = 0\<rparr>]"
      "running_queries s3 = (running_queries s)(t := None)"
      using cancel_appends [OF cur assms] by blast
    then show "\<exists>s'. cancel_current_query s = Inr s' \<and> phase_of s' t = Idle \<and>
               history_appends s' = history_appends s @ [\<lparr>conn_id = get_id cd,
                 query_text = strip (editor_text (widgets s t)), status = ''Cancelled'',
                 row_count = 0, elapsed = 0\<rparr>]"
      by (simp add: phase_of_def)
  qed
  ultimately show ?thesis
    by (simp add: result_appends close_frame execute_frame phase_of_def)
qed

theorem terminal_paths_append_once_witness:
  "running_queries demo_running 0 = Some 3 \<and>
   combo_data (widgets demo_running 0) = Some [(''id'', IntV 7)] \<and>
   currentWidget demo_running = Some 0 \<and>
   map status (history_appends
     (handle_query_result demo_running 0 [(''id'', IntV 7)] ''SELECT 1;'' [] [] 0 0 False)) = [''Success''] \<and>
   (\<exists>s'. handle_query_error demo_running 0 ''no such table'' = Inr s' \<and>
      map status (history_appends s') = [''Failed'']) \<and>
   (\<exists>s'. handle_query_timeout demo_running 0 3 = Inr s' \<and>
      map status (history_appends s') = [''Timed Out'']) \<and>
   (\<exists>s'. cancel_current_query demo_running = Inr s' \<and>
      map status (history_appends s') = [''Cancelled'']) \<and>
   history_appends (close_tab demo_running 0) = [] \<and>
   history_appends (execute_query demo_running 5) = []"
proof -
  have h1: "running_queries demo_running 0 = Some 3"
    and h2: "combo_data (widgets demo_running 0) = Some [(''id'', IntV 7)]"
    and h3: "currentWidget demo_running = Some 0"
    and h4: "history_appends demo_running = []"
    by (simp_all add: demo_running_fields currentWidget_def)
  show ?thesis
    using terminal_paths_append_once [OF h1 h2, of "[(''id'', IntV 7)]" "''SELECT 1;''" "[]" "[]" 0 0
        False "''no such table''" 0 5] h1 h2 h3 h4
    by auto
qed

subsection \<open>Closing a running session\<close>

text \<open>
  C3, as claimed: closing a running session behaves as a cancel and emits a Cancelled
  outcome with its history record. In the window with two worksheets the second one
  runs a query and is closed: its message view and status label keep their texts (no
  cancel message), the history stays empty, and the tab is gone.
\<close>

theorem close_running_emits_no_outcome:
  "phase_of demo_two_tabs 1 = Running \<and>
   message_view (widgets (close_tab demo_two_tabs 1) 1) = NoText \<and>
   tab_status_label (widgets (close_tab demo_two_tabs 1) 1) = NoText \<and>
   history_appends (close_tab demo_two_tabs 1) = [] \<and>
   tabs (close_tab demo_two_tabs 1) = [0]"
  by (simp add: demo_two_tabs_def build_defs text_defs step_defs phase_of_def)

text \<open>
  C3, amended: closing a running session signals its task to cancel, stops the progress
  timer and the timeout timer, and removes the session's entries from
  \<^verbatim>\<open>running_queries\<close> and \<^verbatim>\<open>tab_timers\<close>; it writes nothing to the tab's widgets and
  appends nothing to the history, the pool keeps the task, and the tab leaves the tab
  bar when it is not the only one.
\<close>

theorem close_running_tab_cleans_up:
  assumes "widget_at s i = Some t" and "running_queries s t = Some r"
    and "tab_timers s t = Some e"
  shows "r \<in> cancelled (close_tab s i) \<and>
         timers (close_tab s i) (timer e) = None \<and>
         timers (close_tab s i) (timeout_timer e) = None \<and>
         running_queries (close_tab s i) t = None \<and>
         tab_timers (close_tab s i) t = None \<and>
         history_appends (close_tab s i) = history_appends s \<and>
         widgets (close_tab s i) = widgets s \<and>
         pool (close_tab s i) = pool s \<and>
         (1 < length (tabs s) \<longrightarrow>
            tabs (close_tab s i) = take i (tabs s) @ drop (Suc i) (tabs s))"
  using assms
  by (simp add: close_tab_def Let_def removeTab_def show_notice_def stop_tab_timers_def
      forget_running_def widget_at_def split: if_splits)

theorem close_running_tab_cleans_up_witness:
  "widget_at demo_two_tabs 1 = Some 1 \<and> running_queries demo_two_tabs 1 = Some 4 \<and>
   tab_timers demo_two_tabs 1 = Some \<lparr>timer = 2, start_time = 0, timeout_timer = 3\<rparr> \<and>
   1 < length (tabs demo_two_tabs) \<and>
   4 \<in> cancelled (close_tab demo_two_tabs 1) \<and>
   timers (close_tab demo_two_tabs 1) 2 = None \<and>
   timers (close_tab demo_two_tabs 1) 3 = None \<and>
   running_queries (close_tab demo_two_tabs 1) 1 = None \<and>
   tab_timers (close_tab demo_two_tabs 1) 1 = None \<and>
   history_appends (close_tab demo_two_tabs 1) = history_appends demo_two_tabs \<and>
   widgets (close_tab demo_two_tabs 1) = widgets demo_two_tabs \<and>
   tabs (close_tab demo_two_tabs 1) = [0]"
proof -
  have h1: "widget_at demo_two_tabs 1 = Some 1"
    and h2: "running_queries demo_two_tabs 1 = Some 4"
    and h3: "tab_timers demo_two_tabs 1 = Some \<lparr>timer = 2, start_time = 0, timeout_timer = 3\<rparr>"
    and h4: "tabs demo_two_tabs = [0, 1]"
    by (simp add: demo_two_fields widget_at_def) (fact demo_two_fields)+
  show ?thesis
    using close_running_tab_cleans_up [OF h1 h2 h3] h1 h2 h3 h4 by simp
qed

subsection \<open>Rejected submissions\<close>

lemma strip_empty_no_semicolon: "strip x = [] \<Longrightarrow> \<not> endswith_semicolon (strip x)"
  by (simp add: endswith_semicolon_def)

text \<open>
  C4. A submission from an idle tab (the editor page showing) whose trimmed text is
  empty or does not end with a semicolon is rejected on the spot: the window shows the
  "Missing Semicolon" warning and the status bar message, and nothing else changes. No
  task reaches the pool, no timer starts, the registries and the history stay as they
  were, and the session is idle afterwards.
\<close>

theorem unterminated_query_rejected:
  assumes "currentWidget s = Some t" and "editor_stack (widgets s t) = Some page"
    and "page \<noteq> 1" and "running_queries s t = None"
    and "strip (editor_text (widgets s t)) = [] \<or>
         \<not> endswith_semicolon (strip (editor_text (widgets s t)))"
  shows "execute_query s now =
           s\<lparr>shown := shown s @
              [WarningDialog ''Missing Semicolon''
                 ''Query must end with a semicolon (;) to execute.'',
               StatusBar ''Execution aborted: Missing semicolon.'' 3000]\<rparr> \<and>
         pool (execute_query s now) = pool s \<and>
         timers (execute_query s now) = timers s \<and>
         tab_timers (execute_query s now) = tab_timers s \<and>
         running_queries (execute_query s now) = running_queries s \<and>
         history_appends (execute_query s now) = history_appends s \<and>
         phase_of (execute_query s now) t = Idle"
proof -
  have ns: "\<not> endswith_semicolon (strip (editor_text (widgets s t)))"
    using assms(5) strip_empty_no_semicolon by blast
  have eq: "execute_query s now =
           s\<lparr>shown := shown s @
              [WarningDialog ''Missing Semicolon''
                 ''Query must end with a semicolon (;) to execute.'',
               StatusBar ''Execution aborted: Missing semicolon.'' 3000]\<rparr>"
    using assms(1-4) ns by (simp add: execute_query_def Let_def show_notice_def dom_def)
  show ?thesis
    using assms(4) by (simp add: eq phase_of_def dom_def)
qed

theorem unterminated_query_rejected_witness:
  "currentWidget demo_unterminated = Some 0 \<and>
   editor_stack (widgets demo_unterminated 0) = Some 0 \<and>
   running_queries demo_unterminated 0 = None \<and>
   \<not> endswith_semicolon (strip (editor_text (widgets demo_unterminated 0))) \<and>
   shown (execute_query demo_unterminated 0) =
     [WarningDialog ''Missing Semicolon'' ''Query must end with a semicolon (;) to execute.'',
      StatusBar ''Execution aborted: Missing semicolon.'' 3000] \<and>
   pool (execute_query demo_unterminated 0) = [] \<and>
   timers (execute_query demo_unterminated 0) = Map.empty \<and>
   tab_timers (execute_query demo_unterminated 0) = Map.empty \<and>
   running_queries (execute_query demo_unterminated 0) = Map.empty \<and>
   history_appends (execute_query demo_unterminated 0) = [] \<and>
   phase_of (execute_query demo_unterminated 0) 0 = Idle"
proof -
  have h1: "currentWidget demo_unterminated = Some 0"
    and h2: "editor_stack (widgets demo_unterminated 0) = Some 0"
    and h3: "(0::nat) \<noteq> 1"
    and h4: "running_queries demo_unterminated 0 = None"
    and h5: "\<not> endswith_semicolon (strip (editor_text (widgets demo_unterminated 0)))"
    and h6: "shown demo_unterminated = []" "pool demo_unterminated = []"
      "timers demo_unterminated = Map.empty" "tab_timers demo_unterminated = Map.empty"
      "running_queries demo_unterminated = Map.empty" "history_appends demo_unterminated = []"
    by (simp_all add: demo_unterminated_def build_defs text_defs currentWidget_def)
  have h5': "strip (editor_text (widgets demo_unterminated 0)) = [] \<or>
         \<not> endswith_semicolon (strip (editor_text (widgets demo_unterminated 0)))"
    using h5 by blast
  show ?thesis
    using unterminated_query_rejected [OF h1 h2 h3 h4 h5', of 0] h1 h2 h4 h5 h6
    by (simp add: phase_of_def)
qed

lemma execute_keeps_current_task:
  "running_queries s u = Some r \<Longrightarrow> running_queries (execute_query s now) u = Some r"
  by (auto simp: execute_query_def Let_def show_notice_def split: option.splits)

text \<open>
  C5. A submission from a tab that already runs a query leaves every part of the state
  as it was: the task stays current, no task is dispatched, no timer starts, the tab's
  widgets, the cancel action, the status label and the history are untouched. From the
  editor page the rejection is the "Query in Progress" warning. And no submission, in
  any window, replaces the task that is current for a tab, so a tab never has two
  current tasks.
\<close>

theorem running_tab_rejects_submit:
  assumes "currentWidget s = Some t" and "running_queries s t = Some r"
  shows "(editor_stack (widgets s t) = Some page \<and> page \<noteq> 1 \<longrightarrow>
            execute_query s now =
              s\<lparr>shown := shown s @
                 [WarningDialog ''Query in Progress''
                    ''A query is already running in this tab.'']\<rparr>) \<and>
         running_queries (execute_query s now) = running_queries s \<and>
         pool (execute_query s now) = pool s \<and>
         timers (execute_query s now) = timers s \<and>
         tab_timers (execute_query s now) = tab_timers s \<and>
         history_appends (execute_query s now) = history_appends s \<and>
         widgets (execute_query s now) = widgets s \<and>
         cancel_action (execute_query s now) = cancel_action s \<and>
         status_message_label (execute_query s now) = status_message_label s \<and>
         (running_queries s0 u = Some r0 \<longrightarrow>
            running_queries (execute_query s0 now0) u = Some r0)"
  using assms execute_keeps_current_task [of s0 u r0 now0]
  by (auto simp: execute_query_def Let_def show_notice_def split: option.splits)

theorem running_tab_rejects_submit_witness:
  "currentWidget demo_running = Some 0 \<and> running_queries demo_running 0 = Some 3 \<and>
   editor_stack (widgets demo_running 0) = Some 0 \<and>
   execute_query demo_running 9 =
     demo_running\<lparr>shown := [WarningDialog ''Query in Progress''
        ''A query is already running in this tab.'']\<rparr> \<and>
   running_queries (execute_query demo_running 9) 0 = Some 3 \<and>
   pool (execute_query demo_running 9) = pool demo_running"
proof -
  have h1: "currentWidget demo_running = Some 0"
    and h2: "running_queries demo_running 0 = Some 3"
    and h3: "editor_stack (widgets demo_running 0) = Some 0"
    and h4: "shown demo_running = []"
    by (simp_all add: demo_running_fields currentWidget_def)
  show ?thesis
    using running_tab_rejects_submit [OF h1 h2, of 0 9 demo_running 0 3 9] h1 h2 h3 h4
    by simp
qed

subsection \<open>The timeout watchdog\<close>

text \<open>
  With a current connection in the tab's combo box, a watchdog that fires for the task
  the tab still owns signals the task to cancel, writes the timed-out message with the
  bound of 60 seconds (\<open>QUERY_TIMEOUT\<close> is 60000 ms) to the tab, shows the timeout
  warning with the same bound, records one history entry with status ''Timed Out'', and
  leaves the session idle with no timers entry; the pool still holds the task.
\<close>

lemma watchdog_with_connection:
  assumes "running_queries s t = Some r" and "combo_data (widgets s t) = Some cd"
  shows "\<exists>s'. handle_query_timeout s t r = Inr s' \<and>
           r \<in> cancelled s' \<and>
           message_view (widgets s' t) = TimedOutText 60 \<and>
           tab_status_label (widgets s' t) = TimedOutText 60 \<and>
           shown s' = shown s @ [TimeoutWarning 60] \<and>
           history_appends s' = history_appends s @
             [\<lparr>conn_id = get_id cd, query_text = strip (editor_text (widgets s t)),
               status = ''Timed Out'', row_count = 0, elapsed = 60\<rparr>] \<and>
           phase_of s' t = Idle \<and> tab_timers s' t = None \<and>
           pool s' = pool s \<and> QUERY_TIMEOUT = 60000"
proof -
  have sixty: "timeout_seconds = 60"
    by (simp add: timeout_seconds_def QUERY_TIMEOUT_def)
  obtain s2 where "handle_query_timeout s t r = Inr s2"
    "history_appends s2 = history_appends s @ [\<lparr>conn_id = get_id cd,
        query_text = strip (editor_text (widgets s t)), status = ''Timed Out'',
        row_count = 0, elapsed = timeout_seconds\<rparr>]"
    "running_queries s2 = (running_queries s)(t := None)"
    "tab_timers s2 = (tab_timers s)(t := None)"
    "message_view (widgets s2 t) = TimedOutText timeout_seconds"
    "tab_status_label (widgets s2 t) = TimedOutText timeout_seconds"
    "cancelled s2 = insert r (cancelled s)" "pool s2 = pool s"
    "shown s2 = shown s @ [TimeoutWarning timeout_seconds]"
    using timeout_appends [OF assms] by blast
  then show ?thesis
    by (simp add: sixty phase_of_def QUERY_TIMEOUT_def)
qed


subsection \<open>Timers exactly while running\<close>

lemma error_outcome:
  "handle_query_error s t m = Inr s' \<Longrightarrow>
     running_queries s' = (running_queries s)(t := None) \<and>
     tab_timers s' = (tab_timers s)(t := None) \<and> tabs s' = tabs s"
  by (auto simp: handle_query_error_def Let_def split: option.splits)

lemma timeout_outcome:
  "handle_query_timeout s t r = Inr s' \<Longrightarrow>
     (running_queries s t = Some r \<and> running_queries s' = (running_queries s)(t := None) \<and>
      tab_timers s' = (tab_timers s)(t := None) \<or> s' = s) \<and> tabs s' = tabs s"
  by (auto simp: handle_query_timeout_def Let_def show_notice_def fun_upd_idem
      split: option.splits if_splits)

lemma cancel_outcome:
  "cancel_current_query s = Inr s' \<Longrightarrow>
     ((\<exists>t. running_queries s' = (running_queries s)(t := None) \<and>
           tab_timers s' = (tab_timers s)(t := None)) \<or> s' = s) \<and> tabs s' = tabs s"
  by (auto simp: cancel_current_query_def Let_def split: option.splits)

lemma execute_registries:
  "(tab_timers (execute_query s now) = tab_timers s \<and>
    running_queries (execute_query s now) = running_queries s) \<or>
   (\<exists>t e r. tab_timers (execute_query s now) = (tab_timers s)(t \<mapsto> e) \<and>
      running_queries (execute_query s now) = (running_queries s)(t \<mapsto> r))"
  by (simp add: execute_query_def Let_def show_notice_def split: option.splits) blast

lemma inv_execute: "timers_iff_running s \<Longrightarrow> timers_iff_running (execute_query s now)"
  using execute_registries [of s now] unfolding timers_iff_running_def
  by (elim disjE conjE exE) simp_all

lemma close_registries:
  "tabs (close_tab s i) \<noteq> [] \<or> tabs s = []"
  "(tab_timers (close_tab s i) = tab_timers s \<and>
    running_queries (close_tab s i) = running_queries s) \<or>
   (\<exists>t. tab_timers (close_tab s i) = (tab_timers s)(t := None) \<and>
      running_queries (close_tab s i) = (running_queries s)(t := None))"
  by (auto simp: close_tab_def Let_def show_notice_def removeTab_def fun_upd_idem
      split: option.splits)

lemma inv_close: "timers_iff_running s \<Longrightarrow> timers_iff_running (close_tab s i)"
  using close_registries(2) [of s i] unfolding timers_iff_running_def
  by (elim disjE conjE exE) simp_all


lemma inv_phase:
  "timers_iff_running s \<Longrightarrow> (tab_timers s u \<noteq> None) = (phase_of s u = Running)"
  unfolding timers_iff_running_def phase_of_def by (metis domIff phase.distinct(1))

lemma handlers_return:
  "combo_data (widgets s t) = Some cd \<Longrightarrow> \<exists>s'. handle_query_error s t m = Inr s'"
  "combo_data (widgets s t) = Some cd \<Longrightarrow> \<exists>s'. handle_query_timeout s t r = Inr s'"
  "combo_data (widgets s t) = Some cd \<Longrightarrow> currentWidget s = Some t \<Longrightarrow>
     \<exists>s'. cancel_current_query s = Inr s'"
  by (simp_all add: handle_query_error_def handle_query_timeout_def cancel_current_query_def
      Let_def split: option.splits)

text \<open>
  C7. The invariant: a tab has its timers entry (progress timer and timeout timer)
  exactly when it has a running task. Every operation preserves it: submitting, a
  result, an executor error, a timeout, a cancel, closing a tab, and opening one. The
  three handlers that can raise do return when the tab's combo box has a current
  connection. Under the invariant a tab holds timers if and only if its phase is
  Running.
\<close>

theorem timers_iff_running_preserved:
  assumes "timers_iff_running s"
  shows "timers_iff_running (execute_query s now) \<and>
         timers_iff_running (handle_query_result s t conn q rows cols n el sel) \<and>
         (\<forall>s'. handle_query_error s t m = Inr s' \<longrightarrow> timers_iff_running s') \<and>
         (\<forall>s'. handle_query_timeout s t r = Inr s' \<longrightarrow> timers_iff_running s') \<and>
         (\<forall>s'. cancel_current_query s = Inr s' \<longrightarrow> timers_iff_running s') \<and>
         timers_iff_running (close_tab s i) \<and>
         timers_iff_running (add_tab s items) \<and>
         (\<forall>cd. combo_data (widgets s t) = Some cd \<longrightarrow>
            (\<exists>s'. handle_query_error s t m = Inr s') \<and>
            (\<exists>s'. handle_query_timeout s t r = Inr s') \<and>
            (currentWidget s = Some t \<longrightarrow> (\<exists>s'. cancel_current_query s = Inr s'))) \<and>
         (\<forall>u. (tab_timers s u \<noteq> None) = (phase_of s u = Running))"
proof -
  have d: "dom (tab_timers s) = dom (running_queries s)"
    using assms by (simp add: timers_iff_running_def)
  have 1: "timers_iff_running (handle_query_result s t conn q rows cols n el sel)"
    using d by (simp add: timers_iff_running_def result_appends)
  have 2: "\<forall>s'. handle_query_error s t m = Inr s' \<longrightarrow> timers_iff_running s'"
  proof (intro allI impI)
    fix s' assume "handle_query_error s t m = Inr s'"
    from error_outcome [OF this] d show "timers_iff_running s'"
      unfolding timers_iff_running_def by simp
  qed
  have 3: "\<forall>s'. handle_query_timeout s t r = Inr s' \<longrightarrow> timers_iff_running s'"
  proof (intro allI impI)
    fix s' assume "handle_query_timeout s t r = Inr s'"
    from timeout_outcome [OF this] d show "timers_iff_running s'"
      unfolding timers_iff_running_def by (elim conjE disjE) simp_all
  qed
  have 4: "\<forall>s'. cancel_current_query s = Inr s' \<longrightarrow> timers_iff_running s'"
  proof (intro allI impI)
    fix s' assume "cancel_current_query s = Inr s'"
    from cancel_outcome [OF this] d show "timers_iff_running s'"
      unfolding timers_iff_running_def by (elim conjE disjE exE) simp_all
  qed
  have 5: "timers_iff_running (add_tab s items)"
    using d by (simp add: timers_iff_running_def add_tab_def)
  have 6: "\<forall>cd. combo_data (widgets s t) = Some cd \<longrightarrow>
            (\<exists>s'. handle_query_error s t m = Inr s') \<and>
            (\<exists>s'. handle_query_timeout s t r = Inr s') \<and>
            (currentWidget s = Some t \<longrightarrow> (\<exists>s'. cancel_current_query s = Inr s'))"
    using handlers_return by blast
  have 7: "\<forall>u. (tab_timers s u \<noteq> None) = (phase_of s u = Running)"
    using inv_phase [OF assms] by blast
  from inv_execute [OF assms] 1 2 3 4 inv_close [OF assms] 5 6 7 show ?thesis
    by (intro conjI)
qed

theorem timers_iff_running_preserved_witness:
  "timers_iff_running demo_running \<and>
   timers_iff_running (execute_query demo_running 4) \<and>
   timers_iff_running
     (handle_query_result demo_running 0 [(''id'', IntV 7)] ''SELECT 1;'' [] [] 0 0 False) \<and>
   (\<exists>s'. handle_query_error demo_running 0 ''no such table'' = Inr s' \<and> timers_iff_running s') \<and>
   (\<exists>s'. handle_query_timeout demo_running 0 3 = Inr s' \<and> timers_iff_running s') \<and>
   (\<exists>s'. cancel_current_query demo_running = Inr s' \<and> timers_iff_running s') \<and>
   timers_iff_running (close_tab demo_running 0) \<and>
   timers_iff_running (add_tab demo_running []) \<and>
   tab_timers demo_running 0 \<noteq> None \<and> phase_of demo_running 0 = Running"
proof -
  have h: "timers_iff_running demo_running"
    by (simp add: timers_iff_running_def demo_running_def demo_idle_def build_defs text_defs
        step_defs)
  have c: "combo_data (widgets demo_running 0) = Some [(''id'', IntV 7)]"
    and w: "currentWidget demo_running = Some 0"
    and tt: "tab_timers demo_running 0 \<noteq> None"
    by (simp_all add: demo_running_fields currentWidget_def)
  note th = timers_iff_running_preserved [OF h, of 4 0 "[(''id'', IntV 7)]" "''SELECT 1;''" "[]" "[]"
        0 0 False "''no such table''" 3 0 "[]"]
  from th c have e: "\<exists>s'. handle_query_error demo_running 0 ''no such table'' = Inr s'"
    and o: "\<exists>s'. handle_query_timeout demo_running 0 3 = Inr s'" by blast+
  from th c w have k: "\<exists>s'. cancel_current_query demo_running = Inr s'" by blast
  from th tt have p: "phase_of demo_running 0 = Running" by blast
  from th e have e': "\<exists>s'. handle_query_error demo_running 0 ''no such table'' = Inr s' \<and>
      timers_iff_running s'" by blast
  from th o have o': "\<exists>s'. handle_query_timeout demo_running 0 3 = Inr s' \<and>
      timers_iff_running s'" by blast
  from th k have k': "\<exists>s'. cancel_current_query demo_running = Inr s' \<and>
      timers_iff_running s'" by blast
  from th h e' o' k' tt p show ?thesis by (intro conjI) blast+
qed

subsection \<open>A failing history store\<close>

lemma outside_store_fields [simp]:
  "widgets (outside_store s) = widgets s"
  "tab_timers (outside_store s) = tab_timers s"
  "running_queries (outside_store s) = running_queries s"
  "tabs (outside_store s) = tabs s"
  "current_index (outside_store s) = current_index s"
  "cancelled (outside_store s) = cancelled s"
  "timers (outside_store s) = timers s"
  "history_appends (outside_store s) = history_appends s"
  "shown (outside_store s) = shown s"
  by (simp_all add: outside_store_def)

lemma outside_stop_tab_timers:
  "outside_store (stop_tab_timers s t) = stop_tab_timers (outside_store s) t"
  by (simp add: stop_tab_timers_def outside_store_def split: option.splits)

lemma outside_forget_running:
  "outside_store (forget_running s t) = forget_running (outside_store s) t"
  by (simp add: forget_running_def outside_store_def Let_def)

lemma outside_stop_spinner:
  "outside_store (stop_spinner s t b) = stop_spinner (outside_store s) t b"
  by (simp add: stop_spinner_def outside_store_def Let_def)

lemma outside_save:
  "outside_store (save_query_to_history s c q st n e) =
     (outside_store s)\<lparr>history_appends := history_appends s @
        [\<lparr>conn_id = c, query_text = q, status = st, row_count = n, elapsed = e\<rparr>]\<rparr>"
  by (simp add: save_query_to_history_def outside_store_def Let_def)

lemma outside_updates [simp]:
  "outside_store (s\<lparr>widgets := w\<rparr>) = (outside_store s)\<lparr>widgets := w\<rparr>"
  "outside_store (s\<lparr>status_message_label := l\<rparr>) = (outside_store s)\<lparr>status_message_label := l\<rparr>"
  "outside_store (s\<lparr>cancelled := c\<rparr>) = (outside_store s)\<lparr>cancelled := c\<rparr>"
  "outside_store (s\<lparr>shown := x\<rparr>) = (outside_store s)\<lparr>shown := x\<rparr>"
  "outside_store (s\<lparr>timers := y\<rparr>) = (outside_store s)\<lparr>timers := y\<rparr>"
  "outside_store (s\<lparr>tab_timers := z\<rparr>) = (outside_store s)\<lparr>tab_timers := z\<rparr>"
  "outside_store (s\<lparr>store_fails := b\<rparr>) = outside_store s"
  by (simp_all add: outside_store_def)

lemmas outside_steps = outside_stop_tab_timers outside_forget_running outside_stop_spinner
  outside_save

lemma store_flag_frame [simp]:
  "widgets (s\<lparr>store_fails := b\<rparr>) = widgets s"
  "tab_timers (s\<lparr>store_fails := b\<rparr>) = tab_timers s"
  "running_queries (s\<lparr>store_fails := b\<rparr>) = running_queries s"
  "history_appends (s\<lparr>store_fails := b\<rparr>) = history_appends s"
  by simp_all

lemma result_outside:
  "outside_store (handle_query_result (s\<lparr>store_fails := b\<rparr>) t conn q rows cols n el sel) =
   outside_store (handle_query_result s t conn q rows cols n el sel)"
  by (simp add: handle_query_result_def Let_def outside_steps)

lemma error_outside:
  "outside_store_result (handle_query_error (s\<lparr>store_fails := b\<rparr>) t m) =
   outside_store_result (handle_query_error s t m)"
  by (simp add: handle_query_error_def outside_store_result_def Let_def outside_steps
      split: option.splits)

lemma timeout_outside:
  "outside_store_result (handle_query_timeout (s\<lparr>store_fails := b\<rparr>) t r) =
   outside_store_result (handle_query_timeout s t r)"
  by (simp add: handle_query_timeout_def outside_store_result_def Let_def outside_steps
      show_notice_def split: option.splits)

lemma cancel_outside:
  "outside_store_result (cancel_current_query (s\<lparr>store_fails := b\<rparr>)) =
   outside_store_result (cancel_current_query s)"
  by (simp add: cancel_current_query_def outside_store_result_def Let_def outside_steps
      currentWidget_def split: option.splits)

lemma result_failed_store:
  "history_rows (handle_query_result (s\<lparr>store_fails := True\<rparr>) t conn q rows cols n el sel) =
     history_rows s"
  "store_log (handle_query_result (s\<lparr>store_fails := True\<rparr>) t conn q rows cols n el sel) =
     store_log s @ [\<lparr>conn_id = get_id conn, query_text = q, status = ''Success'',
                      row_count = n, elapsed = el\<rparr>]"
  "message_view (widgets (handle_query_result s t conn q rows cols n el sel) t)
     = (if sel then QueryOk n el else CommandOk n el)"
  by (simp_all add: handle_query_result_def Let_def stop_tab_timers_def
      save_query_to_history_def stop_spinner_def forget_running_def split: option.splits)

lemma error_failing_store:
  assumes "tab_timers s t = Some e" and "combo_data (widgets s t) = Some cd"
    and "store_fails s"
  shows "\<exists>s'. handle_query_error s t m = Inr s' \<and>
     running_queries s' = (running_queries s)(t := None) \<and>
     tab_timers s' = (tab_timers s)(t := None) \<and>
     timers s' = (timers s)(timer e := None, timeout_timer e := None) \<and>
     message_view (widgets s' t) = ErrorText m \<and>
     tab_status_label (widgets s' t) = ErrorText m \<and>
     history_rows s' = history_rows s \<and>
     store_log s' = store_log s @ [\<lparr>conn_id = get_id cd,
        query_text = strip (editor_text (widgets s t)), status = ''Failed'',
        row_count = 0, elapsed = 0\<rparr>]"
  using assms
  by (simp add: handle_query_error_def Let_def stop_tab_timers_def save_query_to_history_def
      stop_spinner_def forget_running_def)

lemma timeout_failing_store:
  assumes "running_queries s t = Some r" and "tab_timers s t = Some e"
    and "combo_data (widgets s t) = Some cd" and "store_fails s"
  shows "\<exists>s'. handle_query_timeout s t r = Inr s' \<and>
     running_queries s' = (running_queries s)(t := None) \<and>
     tab_timers s' = (tab_timers s)(t := None) \<and>
     timers s' = (timers s)(timer e := None) \<and>
     cancelled s' = insert r (cancelled s) \<and>
     message_view (widgets s' t) = TimedOutText timeout_seconds \<and>
     tab_status_label (widgets s' t) = TimedOutText timeout_seconds \<and>
     shown s' = shown s @ [TimeoutWarning timeout_seconds] \<and>
     history_rows s' = history_rows s \<and>
     store_log s' = store_log s @ [\<lparr>conn_id = get_id cd,
        query_text = strip (editor_text (widgets s t)), status = ''Timed Out'',
        row_count = 0, elapsed = timeout_seconds\<rparr>]"
  using assms
  by (simp add: handle_query_timeout_def Let_def save_query_to_history_def
      stop_spinner_def forget_running_def show_notice_def)

lemma cancel_failing_store:
  assumes "currentWidget s = Some t" and "running_queries s t = Some r"
    and "tab_timers s t = Some e" and "combo_data (widgets s t) = Some cd"
    and "store_fails s"
  shows "\<exists>s'. cancel_current_query s = Inr s' \<and>
     running_queries s' = (running_queries s)(t := None) \<and>
     tab_timers s' = (tab_timers s)(t := None) \<and>
     timers s' = (timers s)(timer e := None, timeout_timer e := None) \<and>
     cancelled s' = insert r (cancelled s) \<and>
     message_view (widgets s' t) = CancelledText \<and>
     tab_status_label (widgets s' t) = CancelledText \<and>
     history_rows s' = history_rows s \<and>
     store_log s' = store_log s @ [\<lparr>conn_id = get_id cd,
        query_text = strip (editor_text (widgets s t)), status = ''Cancelled'',
        row_count = 0, elapsed = 0\<rparr>]"
  using assms
  by (simp add: cancel_current_query_def Let_def stop_tab_timers_def
      save_query_to_history_def stop_spinner_def forget_running_def)

lemma result_timers_stopped:
  assumes "tab_timers s t = Some e"
  shows "timers (handle_query_result s t conn q rows cols n el sel) =
           (timers s)(timer e := None, timeout_timer e := None)"
  using assms
  by (simp add: handle_query_result_def Let_def stop_tab_timers_def save_query_to_history_def
      stop_spinner_def forget_running_def)

lemma failing_flag_fields [simp]:
  "store_fails (s\<lparr>store_fails := b\<rparr>) = b"
  "timers (s\<lparr>store_fails := b\<rparr>) = timers s"
  "cancelled (s\<lparr>store_fails := b\<rparr>) = cancelled s"
  "shown (s\<lparr>store_fails := b\<rparr>) = shown s"
  "history_rows (s\<lparr>store_fails := b\<rparr>) = history_rows s"
  "store_log (s\<lparr>store_fails := b\<rparr>) = store_log s"
  "currentWidget (s\<lparr>store_fails := b\<rparr>) = currentWidget s"
  "(s\<lparr>store_fails := b\<rparr>)\<lparr>store_fails := c\<rparr> = s\<lparr>store_fails := c\<rparr>"
  by (simp_all add: currentWidget_def)

lemma error_failing_run:
  assumes "tab_timers s t = Some e" and "combo_data (widgets s t) = Some cd"
  shows "\<exists>s'. handle_query_error (s\<lparr>store_fails := True\<rparr>) t m = Inr s' \<and>
     phase_of s' t = Idle \<and> tab_timers s' t = None \<and>
     timers s' (timer e) = None \<and> timers s' (timeout_timer e) = None \<and>
     message_view (widgets s' t) = ErrorText m \<and>
     tab_status_label (widgets s' t) = ErrorText m \<and>
     history_rows s' = history_rows s \<and>
     store_log s' = store_log s @ [\<lparr>conn_id = get_id cd,
        query_text = strip (editor_text (widgets s t)), status = ''Failed'',
        row_count = 0, elapsed = 0\<rparr>] \<and>
     outside_store_result (handle_query_error (s\<lparr>store_fails := False\<rparr>) t m) =
       Inr (outside_store s')"
proof -
  let ?f = "s\<lparr>store_fails := True\<rparr>"
  have a: "tab_timers ?f t = Some e" "combo_data (widgets ?f t) = Some cd" "store_fails ?f"
    using assms by simp_all
  obtain s' where s': "handle_query_error ?f t m = Inr s'"
    and p: "running_queries s' = (running_queries ?f)(t := None)"
      "tab_timers s' = (tab_timers ?f)(t := None)"
      "timers s' = (timers ?f)(timer e := None, timeout_timer e := None)"
      "message_view (widgets s' t) = ErrorText m"
      "tab_status_label (widgets s' t) = ErrorText m"
      "history_rows s' = history_rows ?f"
      "store_log s' = store_log ?f @ [\<lparr>conn_id = get_id cd,
        query_text = strip (editor_text (widgets ?f t)), status = ''Failed'',
        row_count = 0, elapsed = 0\<rparr>]"
    using error_failing_store [OF a, of m] by blast
  have "outside_store_result (handle_query_error (?f\<lparr>store_fails := False\<rparr>) t m) =
      outside_store_result (handle_query_error ?f t m)"
    by (rule error_outside)
  then have eq: "outside_store_result (handle_query_error (s\<lparr>store_fails := False\<rparr>) t m) =
      Inr (outside_store s')"
    using s' by (simp add: outside_store_result_def)
  from s' p eq show ?thesis by (simp add: phase_of_def)
qed

lemma timeout_failing_run:
  assumes "running_queries s t = Some r" and "tab_timers s t = Some e"
    and "combo_data (widgets s t) = Some cd"
  shows "\<exists>s'. handle_query_timeout (s\<lparr>store_fails := True\<rparr>) t r = Inr s' \<and>
     phase_of s' t = Idle \<and> tab_timers s' t = None \<and> timers s' (timer e) = None \<and>
     r \<in> cancelled s' \<and>
     message_view (widgets s' t) = TimedOutText timeout_seconds \<and>
     tab_status_label (widgets s' t) = TimedOutText timeout_seconds \<and>
     shown s' = shown s @ [TimeoutWarning timeout_seconds] \<and>
     history_rows s' = history_rows s \<and>
     store_log s' = store_log s @ [\<lparr>conn_id = get_id cd,
        query_text = strip (editor_text (widgets s t)), status = ''Timed Out'',
        row_count = 0, elapsed = timeout_seconds\<rparr>] \<and>
     outside_store_result (handle_query_timeout (s\<lparr>store_fails := False\<rparr>) t r) =
       Inr (outside_store s')"
proof -
  let ?f = "s\<lparr>store_fails := True\<rparr>"
  have a: "running_queries ?f t = Some r" "tab_timers ?f t = Some e"
    "combo_data (widgets ?f t) = Some cd" "store_fails ?f"
    using assms by simp_all
  obtain s' where s': "handle_query_timeout ?f t r = Inr s'"
    and p: "running_queries s' = (running_queries ?f)(t := None)"
      "tab_timers s' = (tab_timers ?f)(t := None)"
      "timers s' = (timers ?f)(timer e := None)"
      "cancelled s' = insert r (cancelled ?f)"
      "message_view (widgets s' t) = TimedOutText timeout_seconds"
      "tab_status_label (widgets s' t) = TimedOutText timeout_seconds"
      "shown s' = shown ?f @ [TimeoutWarning timeout_seconds]"
      "history_rows s' = history_rows ?f"
      "store_log s' = store_log ?f @ [\<lparr>conn_id = get_id cd,
        query_text = strip (editor_text (widgets ?f t)), status = ''Timed Out'',
        row_count = 0, elapsed = timeout_seconds\<rparr>]"
    using timeout_failing_store [OF a] by blast
  have "outside_store_result (handle_query_timeout (?f\<lparr>store_fails := False\<rparr>) t r) =
      outside_store_result (handle_query_timeout ?f t r)"
    by (rule timeout_outside)
  then have eq: "outside_store_result (handle_query_timeout (s\<lparr>store_fails := False\<rparr>) t r) =
      Inr (outside_store s')"
    using s' by (simp add: outside_store_result_def)
  from s' p eq show ?thesis by (simp add: phase_of_def)
qed

lemma cancel_failing_run:
  assumes "currentWidget s = Some t" and "running_queries s t = Some r"
    and "tab_timers s t = Some e" and "combo_data (widgets s t) = Some cd"
  shows "\<exists>s'. cancel_current_query (s\<lparr>store_fails := True\<rparr>) = Inr s' \<and>
     phase_of s' t = Idle \<and> tab_timers s' t = None \<and>
     timers s' (timer e) = None \<and> timers s' (timeout_timer e) = None \<and>
     r \<in> cancelled s' \<and>
     message_view (widgets s' t) = CancelledText \<and>
     tab_status_label (widgets s' t) = CancelledText \<and>
     history_rows s' = history_rows s \<and>
     store_log s' = store_log s @ [\<lparr>conn_id = get_id cd,
        query_text = strip (editor_text (widgets s t)), status = ''Cancelled'',
        row_count = 0, elapsed = 0\<rparr>] \<and>
     outside_store_result (cancel_current_query (s\<lparr>store_fails := False\<rparr>)) =
       Inr (outside_store s')"
proof -
  let ?f = "s\<lparr>store_fails := True\<rparr>"
  have a: "currentWidget ?f = Some t" "running_queries ?f t = Some r"
    "tab_timers ?f t = Some e" "combo_data (widgets ?f t) = Some cd" "store_fails ?f"
    using assms by simp_all
  obtain s' where s': "cancel_current_query ?f = Inr s'"
    and p: "running_queries s' = (running_queries ?f)(t := None)"
      "tab_timers s' = (tab_timers ?f)(t := None)"
      "timers s' = (timers ?f)(timer e := None, timeout_timer e := None)"
      "cancelled s' = insert r (cancelled ?f)"
      "message_view (widgets s' t) = CancelledText"
      "tab_status_label (widgets s' t) = CancelledText"
      "history_rows s' = history_rows ?f"
      "store_log s' = store_log ?f @ [\<lparr>conn_id = get_id cd,
        query_text = strip (editor_text (widgets ?f t)), status = ''Cancelled'',
        row_count = 0, elapsed = 0\<rparr>]"
    using cancel_failing_store [OF a] by blast
  have "outside_store_result (cancel_current_query (?f\<lparr>store_fails := False\<rparr>)) =
      outside_store_result (cancel_current_query ?f)"
    by (rule cancel_outside)
  then have eq: "outside_store_result (cancel_current_query (s\<lparr>store_fails := False\<rparr>)) =
      Inr (outside_store s')"
    using s' by (simp add: outside_store_result_def)
  from s' p eq show ?thesis by (simp add: phase_of_def)
qed

lemma demo_running_store:
  "history_rows demo_running = []" "store_log demo_running = []"
  by (simp_all add: demo_running_def demo_idle_def build_defs text_defs step_defs)

text \<open>
  C8. A terminal handler reaches the recorder once it has read the tab's connection, so
  a failing append belongs to a running session (an entry in \<^verbatim>\<open>running_queries\<close> and
  one in \<^verbatim>\<open>tab_timers\<close>) whose combo box has a current connection. With a store that
  refuses the append, each of the four handlers still returns a window: the session is
  idle, its \<^verbatim>\<open>tab_timers\<close> entry is gone and the timers it held are stopped (the timeout
  handler stops the progress timer; the watchdog is single-shot and has just fired), the
  tab shows the outcome of the query itself (the result, the executor's error text, the
  timed-out text with the warning, the cancel text), no row is stored and the entry is
  logged. Apart from the store's own contents, the window is the one the handler returns
  when the append succeeds; the same holds for the error a handler ends in.
\<close>

theorem history_failure_non_fatal:
  "outside_store (handle_query_result (s\<lparr>store_fails := True\<rparr>) t conn q rows cols n el sel) =
   outside_store (handle_query_result (s\<lparr>store_fails := False\<rparr>) t conn q rows cols n el sel) \<and>
   outside_store_result (handle_query_error (s\<lparr>store_fails := True\<rparr>) t m) =
   outside_store_result (handle_query_error (s\<lparr>store_fails := False\<rparr>) t m) \<and>
   outside_store_result (handle_query_timeout (s\<lparr>store_fails := True\<rparr>) t r) =
   outside_store_result (handle_query_timeout (s\<lparr>store_fails := False\<rparr>) t r) \<and>
   outside_store_result (cancel_current_query (s\<lparr>store_fails := True\<rparr>)) =
   outside_store_result (cancel_current_query (s\<lparr>store_fails := False\<rparr>)) \<and>
   history_rows (handle_query_result (s\<lparr>store_fails := True\<rparr>) t conn q rows cols n el sel) =
     history_rows s \<and>
   store_log (handle_query_result (s\<lparr>store_fails := True\<rparr>) t conn q rows cols n el sel) =
     store_log s @ [\<lparr>conn_id = get_id conn, query_text = q, status = ''Success'',
                      row_count = n, elapsed = el\<rparr>] \<and>
   phase_of (handle_query_result (s\<lparr>store_fails := True\<rparr>) t conn q rows cols n el sel) t = Idle \<and>
   tab_timers (handle_query_result (s\<lparr>store_fails := True\<rparr>) t conn q rows cols n el sel) t = None \<and>
   message_view (widgets
     (handle_query_result (s\<lparr>store_fails := True\<rparr>) t conn q rows cols n el sel) t) =
     (if sel then QueryOk n el else CommandOk n el) \<and>
   (tab_timers s t = Some e \<longrightarrow>
      timers (handle_query_result (s\<lparr>store_fails := True\<rparr>) t conn q rows cols n el sel)
        (timer e) = None \<and>
      timers (handle_query_result (s\<lparr>store_fails := True\<rparr>) t conn q rows cols n el sel)
        (timeout_timer e) = None) \<and>
   (tab_timers s t = Some e \<and> combo_data (widgets s t) = Some cd \<longrightarrow>
      (\<exists>s'. handle_query_error (s\<lparr>store_fails := True\<rparr>) t m = Inr s' \<and>
         phase_of s' t = Idle \<and> tab_timers s' t = None \<and>
         timers s' (timer e) = None \<and> timers s' (timeout_timer e) = None \<and>
         message_view (widgets s' t) = ErrorText m \<and>
         tab_status_label (widgets s' t) = ErrorText m \<and>
         history_rows s' = history_rows s \<and>
         store_log s' = store_log s @ [\<lparr>conn_id = get_id cd,
            query_text = strip (editor_text (widgets s t)), status = ''Failed'',
            row_count = 0, elapsed = 0\<rparr>] \<and>
         outside_store_result (handle_query_error (s\<lparr>store_fails := False\<rparr>) t m) =
           Inr (outside_store s'))) \<and>
   (running_queries s t = Some r \<and> tab_timers s t = Some e \<and>
    combo_data (widgets s t) = Some cd \<longrightarrow>
      (\<exists>s'. handle_query_timeout (s\<lparr>store_fails := True\<rparr>) t r = Inr s' \<and>
         phase_of s' t = Idle \<and> tab_timers s' t = None \<and> timers s' (timer e) = None \<and>
         r \<in> cancelled s' \<and>
         message_view (widgets s' t) = TimedOutText timeout_seconds \<and>
         tab_status_label (widgets s' t) = TimedOutText timeout_seconds \<and>
         shown s' = shown s @ [TimeoutWarning timeout_seconds] \<and>
         history_rows s' = history_rows s \<and>
         store_log s' = store_log s @ [\<lparr>conn_id = get_id cd,
            query_text = strip (editor_text (widgets s t)), status = ''Timed Out'',
            row_count = 0, elapsed = timeout_seconds\<rparr>] \<and>
         outside_store_result (handle_query_timeout (s\<lparr>store_fails := False\<rparr>) t r) =
           Inr (outside_store s'))) \<and>
   (currentWidget s = Some t \<and> running_queries s t = Some r \<and> tab_timers s t = Some e \<and>
    combo_data (widgets s t) = Some cd \<longrightarrow>
      (\<exists>s'. cancel_current_query (s\<lparr>store_fails := True\<rparr>) = Inr s' \<and>
         phase_of s' t = Idle \<and> tab_timers s' t = None \<and>
         timers s' (timer e) = None \<and> timers s' (timeout_timer e) = None \<and>
         r \<in> cancelled s' \<and>
         message_view (widgets s' t) = CancelledText \<and>
         tab_status_label (widgets s' t) = CancelledText \<and>
         history_rows s' = history_rows s \<and>
         store_log s' = store_log s @ [\<lparr>conn_id = get_id cd,
            query_text = strip (editor_text (widgets s t)), status = ''Cancelled'',
            row_count = 0, elapsed = 0\<rparr>] \<and>
         outside_store_result (cancel_current_query (s\<lparr>store_fails := False\<rparr>)) =
           Inr (outside_store s')))"
proof -
  have 1: "outside_store (handle_query_result (s\<lparr>store_fails := True\<rparr>) t conn q rows cols n el sel) =
   outside_store (handle_query_result (s\<lparr>store_fails := False\<rparr>) t conn q rows cols n el sel)"
    by (simp only: result_outside)
  have 2: "outside_store_result (handle_query_error (s\<lparr>store_fails := True\<rparr>) t m) =
   outside_store_result (handle_query_error (s\<lparr>store_fails := False\<rparr>) t m)"
    by (simp only: error_outside)
  have 3: "outside_store_result (handle_query_timeout (s\<lparr>store_fails := True\<rparr>) t r) =
   outside_store_result (handle_query_timeout (s\<lparr>store_fails := False\<rparr>) t r)"
    by (simp only: timeout_outside)
  have 4: "outside_store_result (cancel_current_query (s\<lparr>store_fails := True\<rparr>)) =
   outside_store_result (cancel_current_query (s\<lparr>store_fails := False\<rparr>))"
    by (simp only: cancel_outside)
  have 5: "phase_of (handle_query_result (s\<lparr>store_fails := True\<rparr>) t conn q rows cols n el sel) t = Idle"
    "tab_timers (handle_query_result (s\<lparr>store_fails := True\<rparr>) t conn q rows cols n el sel) t = None"
    by (simp_all add: result_appends phase_of_def)
  have 6: "tab_timers s t = Some e \<longrightarrow>
      timers (handle_query_result (s\<lparr>store_fails := True\<rparr>) t conn q rows cols n el sel)
        (timer e) = None \<and>
      timers (handle_query_result (s\<lparr>store_fails := True\<rparr>) t conn q rows cols n el sel)
        (timeout_timer e) = None"
    by (simp add: result_timers_stopped)
  have 7: "tab_timers s t = Some e \<and> combo_data (widgets s t) = Some cd \<longrightarrow>
      (\<exists>s'. handle_query_error (s\<lparr>store_fails := True\<rparr>) t m = Inr s' \<and>
         phase_of s' t = Idle \<and> tab_timers s' t = None \<and>
         timers s' (timer e) = None \<and> timers s' (timeout_timer e) = None \<and>
         message_view (widgets s' t) = ErrorText m \<and>
         tab_status_label (widgets s' t) = ErrorText m \<and>
         history_rows s' = history_rows s \<and>
         store_log s' = store_log s @ [\<lparr>conn_id = get_id cd,
            query_text = strip (editor_text (widgets s t)), status = ''Failed'',
            row_count = 0, elapsed = 0\<rparr>] \<and>
         outside_store_result (handle_query_error (s\<lparr>store_fails := False\<rparr>) t m) =
           Inr (outside_store s'))"
    using error_failing_run by blast
  have 8: "running_queries s t = Some r \<and> tab_timers s t = Some e \<and>
    combo_data (widgets s t) = Some cd \<longrightarrow>
      (\<exists>s'. handle_query_timeout (s\<lparr>store_fails := True\<rparr>) t r = Inr s' \<and>
         phase_of s' t = Idle \<and> tab_timers s' t = None \<and> timers s' (timer e) = None \<and>
         r \<in> cancelled s' \<and>
         message_view (widgets s' t) = TimedOutText timeout_seconds \<and>
         tab_status_label (widgets s' t) = TimedOutText timeout_seconds \<and>
         shown s' = shown s @ [TimeoutWarning timeout_seconds] \<and>
         history_rows s' = history_rows s \<and>
         store_log s' = store_log s @ [\<lparr>conn_id = get_id cd,
            query_text = strip (editor_text (widgets s t)), status = ''Timed Out'',
            row_count = 0, elapsed = timeout_seconds\<rparr>] \<and>
         outside_store_result (handle_query_timeout (s\<lparr>store_fails := False\<rparr>) t r) =
           Inr (outside_store s'))"
    using timeout_failing_run by blast
  have 9: "currentWidget s = Some t \<and> running_queries s t = Some r \<and> tab_timers s t = Some e \<and>
    combo_data (widgets s t) = Some cd \<longrightarrow>
      (\<exists>s'. cancel_current_query (s\<lparr>store_fails := True\<rparr>) = Inr s' \<and>
         phase_of s' t = Idle \<and> tab_timers s' t = None \<and>
         timers s' (timer e) = None \<and> timers s' (timeout_timer e) = None \<and>
         r \<in> cancelled s' \<and>
         message_view (widgets s' t) = CancelledText \<and>
         tab_status_label (widgets s' t) = CancelledText \<and>
         history_rows s' = history_rows s \<and>
         store_log s' = store_log s @ [\<lparr>conn_id = get_id cd,
            query_text = strip (editor_text (widgets s t)), status = ''Cancelled'',
            row_count = 0, elapsed = 0\<rparr>] \<and>
         outside_store_result (cancel_current_query (s\<lparr>store_fails := False\<rparr>)) =
           Inr (outside_store s'))"
    using cancel_failing_run by blast
  from 1 2 3 4 5 6 7 8 9 result_failed_store [of s t conn q rows cols n el sel]
    result_failed_store(3) [of "s\<lparr>store_fails := True\<rparr>" t conn q rows cols n el sel]
  show ?thesis by (intro conjI)
qed

theorem history_failure_non_fatal_witness:
  "currentWidget demo_running = Some 0 \<and> running_queries demo_running 0 = Some 3 \<and>
   tab_timers demo_running 0 = Some \<lparr>timer = 1, start_time = 0, timeout_timer = 2\<rparr> \<and>
   combo_data (widgets demo_running 0) = Some [(''id'', IntV 7)] \<and>
   (\<exists>s'. handle_query_error (demo_running\<lparr>store_fails := True\<rparr>) 0 ''no such table'' = Inr s' \<and>
      phase_of s' 0 = Idle \<and> tab_timers s' 0 = None \<and>
      timers s' 1 = None \<and> timers s' 2 = None \<and>
      message_view (widgets s' 0) = ErrorText ''no such table'' \<and>
      history_rows s' = [] \<and>
      store_log s' = [\<lparr>conn_id = Some (IntV 7), query_text = ''SELECT 1;'',
        status = ''Failed'', row_count = 0, elapsed = 0\<rparr>] \<and>
      outside_store_result
        (handle_query_error (demo_running\<lparr>store_fails := False\<rparr>) 0 ''no such table'') =
        Inr (outside_store s')) \<and>
   (\<exists>s'. handle_query_timeout (demo_running\<lparr>store_fails := True\<rparr>) 0 3 = Inr s' \<and>
      phase_of s' 0 = Idle \<and> tab_timers s' 0 = None \<and> timers s' 1 = None \<and>
      3 \<in> cancelled s' \<and>
      message_view (widgets s' 0) = TimedOutText 60 \<and>
      shown s' = [TimeoutWarning 60] \<and>
      history_rows s' = [] \<and>
      store_log s' = [\<lparr>conn_id = Some (IntV 7), query_text = ''SELECT 1;'',
        status = ''Timed Out'', row_count = 0, elapsed = 60\<rparr>] \<and>
      outside_store_result (handle_query_timeout (demo_running\<lparr>store_fails := False\<rparr>) 0 3) =
        Inr (outside_store s')) \<and>
   (\<exists>s'. cancel_current_query (demo_running\<lparr>store_fails := True\<rparr>) = Inr s' \<and>
      phase_of s' 0 = Idle \<and> tab_timers s' 0 = None \<and>
      timers s' 1 = None \<and> timers s' 2 = None \<and>
      3 \<in> cancelled s' \<and>
      message_view (widgets s' 0) = CancelledText \<and>
      history_rows s' = [] \<and>
      store_log s' = [\<lparr>conn_id = Some (IntV 7), query_text = ''SELECT 1;'',
        status = ''Cancelled'', row_count = 0, elapsed = 0\<rparr>] \<and>
      outside_store_result (cancel_current_query (demo_running\<lparr>store_fails := False\<rparr>)) =
        Inr (outside_store s'))"
proof -
  have w: "currentWidget demo_running = Some 0"
    and r: "running_queries demo_running 0 = Some 3"
    and e: "tab_timers demo_running 0 = Some \<lparr>timer = 1, start_time = 0, timeout_timer = 2\<rparr>"
    and c: "combo_data (widgets demo_running 0) = Some [(''id'', IntV 7)]"
    and v: "editor_text (widgets demo_running 0) = ''SELECT 1; ''"
    and h: "history_rows demo_running = []" "store_log demo_running = []"
      "shown demo_running = []"
    by (simp_all add: demo_running_fields demo_running_store currentWidget_def)
  have st: "strip ''SELECT 1; '' = ''SELECT 1;''"
    by (simp add: text_defs)
  have ts: "timeout_seconds = 60"
    by (simp add: timeout_seconds_def QUERY_TIMEOUT_def)
  note th = history_failure_non_fatal [of demo_running 0 "[(''id'', IntV 7)]" "''SELECT 1;''"
      "[]" "[]" 0 0 False "''no such table''" 3
      "\<lparr>timer = 1, start_time = 0, timeout_timer = 2\<rparr>" "[(''id'', IntV 7)]"]
  from th e c have 1: "\<exists>s'. handle_query_error (demo_running\<lparr>store_fails := True\<rparr>) 0
        ''no such table'' = Inr s' \<and>
      phase_of s' 0 = Idle \<and> tab_timers s' 0 = None \<and>
      timers s' 1 = None \<and> timers s' 2 = None \<and>
      message_view (widgets s' 0) = ErrorText ''no such table'' \<and>
      history_rows s' = [] \<and>
      store_log s' = [\<lparr>conn_id = Some (IntV 7), query_text = ''SELECT 1;'',
        status = ''Failed'', row_count = 0, elapsed = 0\<rparr>] \<and>
      outside_store_result
        (handle_query_error (demo_running\<lparr>store_fails := False\<rparr>) 0 ''no such table'') =
        Inr (outside_store s')"
    by (auto simp: v h st get_id_def)
  from th r e c have 2: "\<exists>s'. handle_query_timeout (demo_running\<lparr>store_fails := True\<rparr>) 0 3 = Inr s' \<and>
      phase_of s' 0 = Idle \<and> tab_timers s' 0 = None \<and> timers s' 1 = None \<and>
      3 \<in> cancelled s' \<and>
      message_view (widgets s' 0) = TimedOutText 60 \<and>
      shown s' = [TimeoutWarning 60] \<and>
      history_rows s' = [] \<and>
      store_log s' = [\<lparr>conn_id = Some (IntV 7), query_text = ''SELECT 1;'',
        status = ''Timed Out'', row_count = 0, elapsed = 60\<rparr>] \<and>
      outside_store_result (handle_query_timeout (demo_running\<lparr>store_fails := False\<rparr>) 0 3) =
        Inr (outside_store s')"
    by (auto simp: v h st ts get_id_def)
  from th w r e c have 3: "\<exists>s'. cancel_current_query (demo_running\<lparr>store_fails := True\<rparr>) = Inr s' \<and>
      phase_of s' 0 = Idle \<and> tab_timers s' 0 = None \<and>
      timers s' 1 = None \<and> timers s' 2 = None \<and>
      3 \<in> cancelled s' \<and>
      message_view (widgets s' 0) = CancelledText \<and>
      history_rows s' = [] \<and>
      store_log s' = [\<lparr>conn_id = Some (IntV 7), query_text = ''SELECT 1;'',
        status = ''Cancelled'', row_count = 0, elapsed = 0\<rparr>] \<and>
      outside_store_result (cancel_current_query (demo_running\<lparr>store_fails := False\<rparr>)) =
        Inr (outside_store s')"
    by (auto simp: v h st get_id_def)
  from w r e c 1 2 3 show ?thesis by (intro conjI)
qed

subsection \<open>What the history entry is built from\<close>

lemma edited_fields [simp]:
  "combo_data (widgets (select_connection (edit_text s t txt) t cd) t) = cd"
  "editor_text (widgets (select_connection (edit_text s t txt) t cd) t) = txt"
  "running_queries (select_connection (edit_text s t txt) t cd) = running_queries s"
  "history_appends (select_connection (edit_text s t txt) t cd) = history_appends s"
  "currentWidget (select_connection (edit_text s t txt) t cd) = currentWidget s"
  "pool (select_connection (edit_text s t txt) t cd) = pool s"
  by (simp_all add: select_connection_def edit_text_def currentWidget_def)

text \<open>
  C9. While a query runs the user may replace the editor text and pick another
  connection; neither touches the submitted task in the pool. The error, timeout and
  cancel handlers then build the history entry from the tab's widgets as they are at
  that moment: the trimmed editor text and the id of the connection now selected. The
  result handler records the connection and the text it is handed with the result.
\<close>

theorem history_entry_from_widgets:
  assumes "running_queries s t = Some r"
  shows "(\<exists>s'. handle_query_error (select_connection (edit_text s t txt) t (Some cd)) t m = Inr s' \<and>
            history_appends s' = history_appends s @
              [\<lparr>conn_id = get_id cd, query_text = strip txt, status = ''Failed'',
                row_count = 0, elapsed = 0\<rparr>]) \<and>
         (\<exists>s'. handle_query_timeout (select_connection (edit_text s t txt) t (Some cd)) t r = Inr s' \<and>
            history_appends s' = history_appends s @
              [\<lparr>conn_id = get_id cd, query_text = strip txt, status = ''Timed Out'',
                row_count = 0, elapsed = timeout_seconds\<rparr>]) \<and>
         (currentWidget s = Some t \<longrightarrow>
            (\<exists>s'. cancel_current_query (select_connection (edit_text s t txt) t (Some cd)) = Inr s' \<and>
               history_appends s' = history_appends s @
                 [\<lparr>conn_id = get_id cd, query_text = strip txt, status = ''Cancelled'',
                   row_count = 0, elapsed = 0\<rparr>])) \<and>
         history_appends
           (handle_query_result (select_connection (edit_text s t txt) t (Some cd)) t
              conn q rows cols n el sel) =
           history_appends s @
             [\<lparr>conn_id = get_id conn, query_text = q, status = ''Success'',
               row_count = n, elapsed = el\<rparr>] \<and>
         pool (select_connection (edit_text s t txt) t (Some cd)) = pool s"
proof -
  let ?s = "select_connection (edit_text s t txt) t (Some cd)"
  have c: "combo_data (widgets ?s t) = Some cd" by simp
  have r: "running_queries ?s t = Some r" using assms by simp
  have 1: "\<exists>s'. handle_query_error ?s t m = Inr s' \<and>
            history_appends s' = history_appends s @
              [\<lparr>conn_id = get_id cd, query_text = strip txt, status = ''Failed'',
                row_count = 0, elapsed = 0\<rparr>]"
    using error_appends [OF c, of m] by auto
  have 2: "\<exists>s'. handle_query_timeout ?s t r = Inr s' \<and>
            history_appends s' = history_appends s @
              [\<lparr>conn_id = get_id cd, query_text = strip txt, status = ''Timed Out'',
                row_count = 0, elapsed = timeout_seconds\<rparr>]"
    using timeout_appends [OF r c] by auto
  have 3: "currentWidget s = Some t \<longrightarrow>
            (\<exists>s'. cancel_current_query ?s = Inr s' \<and>
               history_appends s' = history_appends s @
                 [\<lparr>conn_id = get_id cd, query_text = strip txt, status = ''Cancelled'',
                   row_count = 0, elapsed = 0\<rparr>])"
  proof
    assume "currentWidget s = Some t"
    then have w: "currentWidget ?s = Some t" by simp
    show "\<exists>s'. cancel_current_query ?s = Inr s' \<and>
               history_appends s' = history_appends s @
                 [\<lparr>conn_id = get_id cd, query_text = strip txt, status = ''Cancelled'',
                   row_count = 0, elapsed = 0\<rparr>]"
      using cancel_appends [OF w r c] by auto
  qed
  have 4: "history_appends (handle_query_result ?s t conn q rows cols n el sel) =
           history_appends s @
             [\<lparr>conn_id = get_id conn, query_text = q, status = ''Success'',
               row_count = n, elapsed = el\<rparr>]"
    by (simp add: result_appends)
  have 5: "pool ?s = pool s" by simp
  from 1 2 3 4 5 show ?thesis by (intro conjI)
qed

theorem history_entry_from_widgets_witness:
  "running_queries demo_running 0 = Some 3 \<and> currentWidget demo_running = Some 0 \<and>
   pool demo_edited = [\<lparr>rq_id = 3, rq_conn = [(''id'', IntV 7)], rq_query = ''SELECT 1;''\<rparr>] \<and>
   (\<exists>s'. cancel_current_query demo_edited = Inr s' \<and>
      history_appends s' =
        [\<lparr>conn_id = Some (IntV 9), query_text = ''DROP TABLE t;'', status = ''Cancelled'',
          row_count = 0, elapsed = 0\<rparr>]) \<and>
   (\<exists>s'. handle_query_error demo_edited 0 ''no such table'' = Inr s' \<and>
      history_appends s' =
        [\<lparr>conn_id = Some (IntV 9), query_text = ''DROP TABLE t;'', status = ''Failed'',
          row_count = 0, elapsed = 0\<rparr>]) \<and>
   (\<exists>s'. handle_query_timeout demo_edited 0 3 = Inr s' \<and>
      history_appends s' =
        [\<lparr>conn_id = Some (IntV 9), query_text = ''DROP TABLE t;'', status = ''Timed Out'',
          row_count = 0, elapsed = 60\<rparr>]) \<and>
   history_appends
     (handle_query_result demo_edited 0 [(''id'', IntV 7)] ''SELECT 1;'' [[''1'']] [''c''] 1 (1/2) True) =
     [\<lparr>conn_id = Some (IntV 7), query_text = ''SELECT 1;'', status = ''Success'',
       row_count = 1, elapsed = 1/2\<rparr>]"
proof -
  have r: "running_queries demo_running 0 = Some 3"
    and w: "currentWidget demo_running = Some 0"
    and h: "history_appends demo_running = []"
    and p: "pool demo_running =
      [\<lparr>rq_id = 3, rq_conn = [(''id'', IntV 7)], rq_query = ''SELECT 1;''\<rparr>]"
    by (simp_all add: demo_running_fields currentWidget_def)
  have st: "strip ''DROP TABLE t;'' = ''DROP TABLE t;''"
    by (simp add: text_defs)
  have ts: "timeout_seconds = 60"
    by (simp add: timeout_seconds_def QUERY_TIMEOUT_def)
  show ?thesis
    using history_entry_from_widgets [OF r, of "''DROP TABLE t;''" "[(''id'', IntV 9)]"
        "''no such table''" "[(''id'', IntV 7)]" "''SELECT 1;''" "[[''1'']]" "[''c'']" 1 "1/2" True]
      r w h p
    by (simp add: demo_edited_def st ts get_id_def)
qed

subsection \<open>The last tab\<close>

lemma close_tab_tabs:
  "tabs (close_tab s i) =
     (if 1 < length (tabs s) \<and> i < length (tabs s)
      then take i (tabs s) @ drop (Suc i) (tabs s) else tabs s)"
  by (simp add: close_tab_def Let_def removeTab_def show_notice_def widget_at_def
      split: option.splits)

lemma close_tab_nonempty: "tabs s \<noteq> [] \<Longrightarrow> tabs (close_tab s i) \<noteq> []"
  by (cases "tabs s") (auto simp: close_tab_tabs)

lemma close_last_tab:
  assumes "tabs s = [t]" and "running_queries s t = Some r" and "tab_timers s t = Some e"
  shows "tabs (close_tab s 0) = [t]" "r \<in> cancelled (close_tab s 0)"
    "timers (close_tab s 0) (timer e) = None" "timers (close_tab s 0) (timeout_timer e) = None"
    "running_queries (close_tab s 0) t = None" "tab_timers (close_tab s 0) t = None"
    "shown (close_tab s 0) = shown s @ [StatusBar ''Must keep at least one tab'' 3000]"
  using assms
  by (simp_all add: close_tab_def Let_def removeTab_def show_notice_def widget_at_def
      stop_tab_timers_def forget_running_def)

lemma tabs_kept:
  "tabs (execute_query s now) = tabs s"
  "tabs (handle_query_result s t conn q rows cols n el sel) = tabs s"
  by (simp_all add: execute_query_def handle_query_result_def Let_def show_notice_def
      split: option.splits)

text \<open>
  C10. A window that has a tab keeps one: closing a tab, submitting, the four terminal
  handlers (whenever they return) and opening a tab all leave the tab list non-empty,
  and the window starts with one tab. A close request for the only tab, while it runs a
  query, signals the task to cancel, stops both of its timers and removes its entries
  from \<^verbatim>\<open>running_queries\<close> and \<^verbatim>\<open>tab_timers\<close>, but the tab stays and the status bar
  says ''Must keep at least one tab''.
\<close>

theorem close_tab_keeps_a_tab:
  assumes "tabs s \<noteq> []"
  shows "tabs (close_tab s i) \<noteq> [] \<and>
         tabs (execute_query s now) \<noteq> [] \<and>
         tabs (handle_query_result s t conn q rows cols n el sel) \<noteq> [] \<and>
         (\<forall>s'. handle_query_error s t m = Inr s' \<longrightarrow> tabs s' \<noteq> []) \<and>
         (\<forall>s'. handle_query_timeout s t r = Inr s' \<longrightarrow> tabs s' \<noteq> []) \<and>
         (\<forall>s'. cancel_current_query s = Inr s' \<longrightarrow> tabs s' \<noteq> []) \<and>
         tabs (add_tab s items) \<noteq> [] \<and>
         tabs (init_window items) \<noteq> [] \<and>
         (\<forall>e. tabs s = [t] \<and> running_queries s t = Some r \<and> tab_timers s t = Some e \<longrightarrow>
            tabs (close_tab s 0) = [t] \<and> r \<in> cancelled (close_tab s 0) \<and>
            timers (close_tab s 0) (timer e) = None \<and>
            timers (close_tab s 0) (timeout_timer e) = None \<and>
            running_queries (close_tab s 0) t = None \<and>
            tab_timers (close_tab s 0) t = None \<and>
            shown (close_tab s 0) = shown s @ [StatusBar ''Must keep at least one tab'' 3000])"
proof -
  have 0: "tabs (execute_query s now) \<noteq> []"
    "tabs (handle_query_result s t conn q rows cols n el sel) \<noteq> []"
    using assms by (simp_all add: tabs_kept)
  have 1: "\<forall>s'. handle_query_error s t m = Inr s' \<longrightarrow> tabs s' \<noteq> []"
    using error_outcome assms by metis
  have 2: "\<forall>s'. handle_query_timeout s t r = Inr s' \<longrightarrow> tabs s' \<noteq> []"
    using timeout_outcome assms by metis
  have 3: "\<forall>s'. cancel_current_query s = Inr s' \<longrightarrow> tabs s' \<noteq> []"
    using cancel_outcome assms by metis
  have 4: "tabs (add_tab s items) \<noteq> []" "tabs (init_window items) \<noteq> []"
    by (simp_all add: add_tab_def init_window_def)
  have 5: "\<forall>e. tabs s = [t] \<and> running_queries s t = Some r \<and> tab_timers s t = Some e \<longrightarrow>
            tabs (close_tab s 0) = [t] \<and> r \<in> cancelled (close_tab s 0) \<and>
            timers (close_tab s 0) (timer e) = None \<and>
            timers (close_tab s 0) (timeout_timer e) = None \<and>
            running_queries (close_tab s 0) t = None \<and>
            tab_timers (close_tab s 0) t = None \<and>
            shown (close_tab s 0) = shown s @ [StatusBar ''Must keep at least one tab'' 3000]"
    using close_last_tab [of s t r] by blast
  from close_tab_nonempty [OF assms] 0 1 2 3 4 5 show ?thesis
    by (intro conjI)
qed

theorem close_tab_keeps_a_tab_witness:
  "tabs demo_running = [0] \<and> running_queries demo_running 0 = Some 3 \<and>
   tab_timers demo_running 0 = Some \<lparr>timer = 1, start_time = 0, timeout_timer = 2\<rparr> \<and>
   tabs (close_tab demo_running 0) = [0] \<and> 3 \<in> cancelled (close_tab demo_running 0) \<and>
   timers (close_tab demo_running 0) 1 = None \<and>
   timers (close_tab demo_running 0) 2 = None \<and>
   running_queries (close_tab demo_running 0) 0 = None \<and>
   tab_timers (close_tab demo_running 0) 0 = None \<and>
   shown (close_tab demo_running 0) = [StatusBar ''Must keep at least one tab'' 3000]"
proof -
  have a: "tabs demo_running = [0]"
    and b: "running_queries demo_running 0 = Some 3"
    and c: "tab_timers demo_running 0 = Some \<lparr>timer = 1, start_time = 0, timeout_timer = 2\<rparr>"
    and d: "shown demo_running = []"
    by (simp_all add: demo_running_fields)
  have ne: "tabs demo_running \<noteq> []" using a by simp
  from close_tab_keeps_a_tab [OF ne, of 0 0 0 "[]" "[]" "[]" "[]" 0 0 False "[]" 3 "[]"] a b c
  have "tabs (close_tab demo_running 0) = [0] \<and> 3 \<in> cancelled (close_tab demo_running 0) \<and>
            timers (close_tab demo_running 0)
              (timer \<lparr>timer = 1, start_time = 0, timeout_timer = 2\<rparr>) = None \<and>
            timers (close_tab demo_running 0)
              (timeout_timer \<lparr>timer = 1, start_time = 0, timeout_timer = 2\<rparr>) = None \<and>
            running_queries (close_tab demo_running 0) 0 = None \<and>
            tab_timers (close_tab demo_running 0) 0 = None \<and>
            shown (close_tab demo_running 0) =
              shown demo_running @ [StatusBar ''Must keep at least one tab'' 3000]"
    by blast
  with a b c d show ?thesis by simp
qed

end
